theory Spec2Isabelle
  imports Complex_Main
begin

section \<open>AQI forecasting and health-risk scoring: a shallow embedding\<close>

text \<open>
  The development follows \<^verbatim>\<open>model.py\<close>, \<^verbatim>\<open>predict.py\<close>,
  \<^verbatim>\<open>health_risk_classifier.py\<close>, \<^verbatim>\<open>health_risk_model.py\<close> and
  \<^verbatim>\<open>health_risk_api.py\<close>. Python floats are idealised as \<open>real\<close>: every statement
  below is about exact arithmetic. A data frame is represented by its \<^verbatim>\<open>aqi\<close> column, a
  list of reals; the horizon, the window size and the number of epochs are natural
  numbers. Python exceptions are values of \<open>py_error\<close>; a function that can raise
  returns \<open>py_error + 'a\<close> with \<open>Inl\<close> for the exception. \<open>FitError\<close> stands for
  whatever the Keras training routine raises. \<open>InsufficientDataError\<close> is the exception
  the specification names for training on too short a history; no definition below
  produces it. The scikit-learn, NumPy and Keras
  operations the code calls are modelled from their documented behaviour, or taken as
  parameters where the behaviour is not fixed by the code.
\<close>

datatype py_error =
    ValueError
  | IndexError
  | KeyError
  | AttributeError
  | NotFittedError
  | FileNotFoundError
  | FitError
  | InsufficientDataError

subsection \<open>sklearn's MinMaxScaler, feature range (0, 1), one feature\<close>

text \<open>
  The scaler is library code. The model follows its documented attributes:
  \<^verbatim>\<open>scale_ = (1 - 0) / _handle_zeros_in_scale(data_max_ - data_min_)\<close>,
  \<^verbatim>\<open>min_ = 0 - data_min_ * scale_\<close>, \<^verbatim>\<open>transform: X * scale_ + min_\<close>,
  \<^verbatim>\<open>inverse_transform: (X - min_) / scale_\<close>. Fitting or transforming an array with no
  sample raises \<^verbatim>\<open>ValueError\<close> (the input validation requires at least one sample).
  The fields \<open>scale_attr\<close> and \<open>min_attr\<close> are the attributes \<^verbatim>\<open>scale_\<close> and
  \<^verbatim>\<open>min_\<close>.
\<close>

record MinMaxScaler =
  data_min :: real
  data_max :: real
  scale_attr :: real
  min_attr :: real

definition float_eps :: real where
  "float_eps = 1 / 2 ^ 52"

definition handle_zeros_in_scale :: "real \<Rightarrow> real" where
  "handle_zeros_in_scale r = (if r < 10 * float_eps then 1 else r)"

definition np_min :: "real list \<Rightarrow> real" where
  "np_min xs = (case xs of [] \<Rightarrow> 0 | x # rest \<Rightarrow> fold min rest x)"

definition np_max :: "real list \<Rightarrow> real" where
  "np_max xs = (case xs of [] \<Rightarrow> 0 | x # rest \<Rightarrow> fold max rest x)"

definition scaler_fit :: "real list \<Rightarrow> py_error + MinMaxScaler" where
  "scaler_fit values =
     (if values = [] then Inl ValueError
      else let lo = np_min values; hi = np_max values;
               sc = 1 / handle_zeros_in_scale (hi - lo)
           in Inr \<lparr>data_min = lo, data_max = hi, scale_attr = sc, min_attr = 0 - lo * sc\<rparr>)"

definition scale_value :: "MinMaxScaler \<Rightarrow> real \<Rightarrow> real" where
  "scale_value s v = v * scale_attr s + min_attr s"

definition unscale_value :: "MinMaxScaler \<Rightarrow> real \<Rightarrow> real" where
  "unscale_value s v = (v - min_attr s) / scale_attr s"

definition scaler_transform :: "MinMaxScaler \<Rightarrow> real list \<Rightarrow> py_error + real list" where
  "scaler_transform s values =
     (if values = [] then Inl ValueError else Inr (map (scale_value s) values))"

definition scaler_inverse_transform :: "MinMaxScaler \<Rightarrow> real list \<Rightarrow> py_error + real list" where
  "scaler_inverse_transform s values =
     (if values = [] then Inl ValueError else Inr (map (unscale_value s) values))"

definition scaler_fit_transform :: "real list \<Rightarrow> py_error + (MinMaxScaler \<times> real list)" where
  "scaler_fit_transform values =
     (case scaler_fit values of
        Inl e \<Rightarrow> Inl e
      | Inr s \<Rightarrow> (case scaler_transform s values of
                   Inl e \<Rightarrow> Inl e
                 | Inr scaled \<Rightarrow> Inr (s, scaled)))"

subsection \<open>model.py\<close>

text \<open>
  A trained network is the function \<^verbatim>\<open>model.predict\<close> computes on one window: from a
  list of scaled values to the next scaled value. The saved models are a map from file
  paths to networks. The training history is the dictionary \<^verbatim>\<open>history.history\<close>.
\<close>

type_synonym forecast_model = "real list \<Rightarrow> real"

type_synonym model_files = "string \<Rightarrow> forecast_model option"

type_synonym fit_history = "string \<Rightarrow> real list option"

text \<open>
  \<^verbatim>\<open>build_model\<close> followed by \<^verbatim>\<open>model.fit\<close>, and \<^verbatim>\<open>model.save\<close>, are Keras code;
  they are parameters of the embedding. \<open>model_fit\<close> receives the training windows and
  targets, the validation windows and targets and the number of epochs, and either raises
  or returns the fitted network with its history. \<open>model_save\<close> says, for a file path,
  which exception saving to it raises, if any (a file name Keras refuses, a directory
  that does not exist).
\<close>

record keras =
  model_fit :: "real list list \<Rightarrow> real list \<Rightarrow> real list list \<Rightarrow> real list \<Rightarrow> nat
                  \<Rightarrow> py_error + (forecast_model \<times> fit_history)"
  model_save :: "string \<Rightarrow> py_error option"

text \<open>\<^verbatim>\<open>for i in range(len(data) - window_size)\<close>: the range is empty when the
  difference is not positive, which is what truncating subtraction on \<open>nat\<close> gives.\<close>

definition create_sequences :: "real list \<Rightarrow> nat \<Rightarrow> real list list \<times> real list" where
  "create_sequences data window_size =
     (map (\<lambda>i. take window_size (drop i data)) [0 ..< length data - window_size],
      map (\<lambda>i. data ! (i + window_size)) [0 ..< length data - window_size])"

text \<open>\<^verbatim>\<open>model_path.replace('.h5', '.keras')\<close>: every occurrence, left to right.\<close>

fun replace_h5 :: "string \<Rightarrow> string" where
  "replace_h5 [] = []"
| "replace_h5 (c # cs) =
     (if take 3 (c # cs) = ''.h5'' then ''.keras'' @ replace_h5 (drop 2 cs)
      else c # replace_h5 cs)"

text \<open>\<^verbatim>\<open>int(0.85 * len(X))\<close>: the product of the double nearest to 0.85 with an
  integer below \<open>2^50\<close> truncates to the integer quotient of \<open>85 * n\<close> by \<open>100\<close>.\<close>

definition split_index :: "nat \<Rightarrow> nat" where
  "split_index n = (85 * n) div 100"

definition train_model ::
  "keras \<Rightarrow> model_files \<Rightarrow> real list \<Rightarrow> string \<Rightarrow> nat \<Rightarrow> nat
     \<Rightarrow> (py_error + (forecast_model \<times> MinMaxScaler \<times> fit_history)) \<times> model_files" where
  "train_model keras files df model_path window_size epochs =
     (case scaler_fit_transform df of
        Inl e \<Rightarrow> (Inl e, files)
      | Inr (scaler, scaled) \<Rightarrow>
          (let (X, y) = create_sequences scaled window_size;
               split_idx = split_index (length X);
               X_train = take split_idx X; X_val = drop split_idx X;
               y_train = take split_idx y; y_val = drop split_idx y
           in case model_fit keras X_train y_train X_val y_val epochs of
                Inl e \<Rightarrow> (Inl e, files)
              | Inr (model, history) \<Rightarrow>
                  (case model_save keras (replace_h5 model_path) of
                     Some e \<Rightarrow> (Inl e, files)
                   | None \<Rightarrow>
                       (Inr (model, scaler, history),
                        files(replace_h5 model_path \<mapsto> model)))))"

definition load_existing_model :: "model_files \<Rightarrow> string \<Rightarrow> forecast_model option" where
  "load_existing_model files model_path =
     (let keras_path = replace_h5 model_path
      in case files keras_path of
           Some m \<Rightarrow> Some m
         | None \<Rightarrow> files model_path)"

subsection \<open>predict.py\<close>

text \<open>\<^verbatim>\<open>history.history['loss'][-1]\<close>: a missing key raises \<^verbatim>\<open>KeyError\<close>, an empty
  list \<^verbatim>\<open>IndexError\<close>.\<close>

definition final_metric :: "fit_history \<Rightarrow> string \<Rightarrow> py_error + real" where
  "final_metric history key =
     (case history key of
        None \<Rightarrow> Inl KeyError
      | Some [] \<Rightarrow> Inl IndexError
      | Some (v # vs) \<Rightarrow> Inr (last (v # vs)))"

text \<open>Lines 23 to 29: the last \<^verbatim>\<open>window_size\<close> scaled values, left-padded with
  \<^verbatim>\<open>scaled[0]\<close> when there are fewer. \<^verbatim>\<open>scaled[-0:]\<close> is the whole array.\<close>

definition last_sequence :: "real list \<Rightarrow> nat \<Rightarrow> py_error + real list" where
  "last_sequence scaled window_size =
     (if length scaled < window_size then
        (case scaled of
           [] \<Rightarrow> Inl IndexError
         | first # _ \<Rightarrow> Inr (replicate (window_size - length scaled) first @ scaled))
      else if window_size = 0 then Inr scaled
      else Inr (drop (length scaled - window_size) scaled))"

text \<open>Lines 31 to 38: the loop, with the remaining number of iterations, the current
  window and the predictions so far. \<^verbatim>\<open>last_seq.reshape(1, window_size, 1)\<close> raises
  \<^verbatim>\<open>ValueError\<close> unless the window has \<^verbatim>\<open>window_size\<close> elements.\<close>

fun predict_steps ::
  "forecast_model \<Rightarrow> nat \<Rightarrow> nat \<Rightarrow> real list \<Rightarrow> real list \<Rightarrow> py_error + real list" where
  "predict_steps model window_size 0 last_seq predictions_scaled = Inr predictions_scaled"
| "predict_steps model window_size (Suc n) last_seq predictions_scaled =
     (if length last_seq \<noteq> window_size then Inl ValueError
      else let pred = model last_seq
           in predict_steps model window_size n (tl last_seq @ [pred])
                (predictions_scaled @ [pred]))"

text \<open>Lines 8 to 21: load the saved network or train one; the scaler that survives is
  the one fitted here on \<^verbatim>\<open>df\<close> when a network was loaded, and the one
  \<^verbatim>\<open>train_model\<close> returned otherwise.\<close>

definition load_or_train ::
  "keras \<Rightarrow> model_files \<Rightarrow> real list \<Rightarrow> string \<Rightarrow> nat \<Rightarrow> nat
     \<Rightarrow> (py_error + (forecast_model \<times> MinMaxScaler \<times> real list)) \<times> model_files" where
  "load_or_train keras files df model_path window_size epochs =
     (let model = load_existing_model files model_path
      in case scaler_fit_transform df of
           Inl e \<Rightarrow> (Inl e, files)
         | Inr (scaler, scaled) \<Rightarrow>
             (case model of
                Some m \<Rightarrow> (Inr (m, scaler, scaled), files)
              | None \<Rightarrow>
                  (case train_model keras files df model_path window_size epochs of
                     (Inl e, files') \<Rightarrow> (Inl e, files')
                   | (Inr (m, scaler', history), files') \<Rightarrow>
                       (case final_metric history ''loss'' of
                          Inl e \<Rightarrow> (Inl e, files')
                        | Inr final_loss \<Rightarrow>
                            (case final_metric history ''val_loss'' of
                               Inl e \<Rightarrow> (Inl e, files')
                             | Inr final_val_loss \<Rightarrow> (Inr (m, scaler', scaled), files'))))))"

text \<open>Lines 23 to 45, once the network and the scaler are known.\<close>

definition forecast_from ::
  "forecast_model \<Rightarrow> MinMaxScaler \<Rightarrow> real list \<Rightarrow> nat \<Rightarrow> nat \<Rightarrow> py_error + real list" where
  "forecast_from model scaler scaled hours window_size =
     (case last_sequence scaled window_size of
        Inl e \<Rightarrow> Inl e
      | Inr last_seq \<Rightarrow>
          (case predict_steps model window_size hours last_seq [] of
             Inl e \<Rightarrow> Inl e
           | Inr predictions_scaled \<Rightarrow> scaler_inverse_transform scaler predictions_scaled))"

definition forecast_next_hours ::
  "keras \<Rightarrow> model_files \<Rightarrow> real list \<Rightarrow> string \<Rightarrow> nat \<Rightarrow> nat \<Rightarrow> nat
     \<Rightarrow> (py_error + real list) \<times> model_files" where
  "forecast_next_hours keras files df model_path hours window_size epochs =
     (case load_or_train keras files df model_path window_size epochs of
        (Inl e, files') \<Rightarrow> (Inl e, files')
      | (Inr (model, scaler, scaled), files') \<Rightarrow>
          (forecast_from model scaler scaled hours window_size, files'))"


subsection \<open>sklearn's StandardScaler and RandomForestClassifier\<close>

text \<open>
  Both are library code. A fitted \<^verbatim>\<open>StandardScaler\<close> maps each feature to
  \<^verbatim>\<open>(x - mean_) / scale_\<close> and raises \<^verbatim>\<open>ValueError\<close> on a row with another number
  of features. A fitted forest has its sorted class labels \<^verbatim>\<open>classes_\<close> and
  \<^verbatim>\<open>predict_proba\<close>, one probability per class in that order; its \<^verbatim>\<open>predict\<close> is
  \<^verbatim>\<open>classes_.take(np.argmax(proba))\<close>, and \<^verbatim>\<open>np.argmax\<close> returns the first index of
  the maximum.
\<close>

record StandardScaler =
  mean_attr :: "real list"
  std_attr :: "real list"

definition standard_transform :: "StandardScaler \<Rightarrow> real list \<Rightarrow> py_error + real list" where
  "standard_transform s x =
     (if length x \<noteq> length (mean_attr s) then Inl ValueError
      else Inr (map (\<lambda>(v, m, sd). (v - m) / sd) (zip x (zip (mean_attr s) (std_attr s)))))"

record 'c forest =
  classes_attr :: "'c list"
  predict_proba :: "real list \<Rightarrow> real list"

fun np_argmax :: "real list \<Rightarrow> nat" where
  "np_argmax [] = 0"
| "np_argmax (x # xs) = (if list_all (\<lambda>y. y \<le> x) xs then 0 else Suc (np_argmax xs))"

definition forest_predict :: "'c forest \<Rightarrow> real list \<Rightarrow> py_error + 'c" where
  "forest_predict m x =
     (let proba = predict_proba m x; i = np_argmax proba
      in if proba = [] then Inl ValueError
         else if i < length (classes_attr m) then Inr (classes_attr m ! i)
         else Inl IndexError)"

subsection \<open>Python dictionaries with insertion order\<close>

fun dict_set :: "('k \<times> 'v) list \<Rightarrow> 'k \<Rightarrow> 'v \<Rightarrow> ('k \<times> 'v) list" where
  "dict_set [] k v = [(k, v)]"
| "dict_set ((k', v') # d) k v = (if k' = k then (k', v) # d else (k', v') # dict_set d k v)"

definition py_dict :: "('k \<times> 'v) list \<Rightarrow> ('k \<times> 'v) list" where
  "py_dict items = fold (\<lambda>(k, v) d. dict_set d k v) items []"

definition dict_values :: "('k \<times> 'v) list \<Rightarrow> 'v list" where
  "dict_values d = map snd d"

definition dict_get :: "(string \<Rightarrow> real option) \<Rightarrow> string \<Rightarrow> real \<Rightarrow> real" where
  "dict_get d k dflt = (case d k of None \<Rightarrow> dflt | Some v \<Rightarrow> v)"

definition py_max :: "real list \<Rightarrow> py_error + real" where
  "py_max xs = (case xs of [] \<Rightarrow> Inl ValueError | x # rest \<Rightarrow> Inr (fold max rest x))"

subsection \<open>health_risk_classifier.py\<close>

record HealthRiskClassifier =
  hrc_model :: "string forest option"
  hrc_scaler :: "StandardScaler option"
  hrc_feature_names :: "string list"
  hrc_risk_categories :: "string list"
  hrc_personas :: "(string \<times> real \<times> real) list"
  hrc_explainer :: "(real list \<Rightarrow> real list list) option"

text \<open>\<^verbatim>\<open>__init__\<close>: no model, an unfitted scaler, no explainer attribute. A persona
  carries its sensitivity and its baseline risk.\<close>

definition HealthRiskClassifier_init :: HealthRiskClassifier where
  "HealthRiskClassifier_init =
     \<lparr>hrc_model = None, hrc_scaler = None, hrc_feature_names = [],
      hrc_risk_categories = [''Low'', ''Moderate'', ''High'', ''Hazardous''],
      hrc_personas = [(''children_elderly'', 3 / 2, 3 / 10),
                      (''outdoor_workers'', 6 / 5, 1 / 5),
                      (''general_public'', 1, 1 / 10)],
      hrc_explainer = None\<rparr>"

record risk_result =
  risk_category :: string
  risk_probabilities :: "(string \<times> real) list"
  shap_values :: "real list list"
  features :: "real list"
  feature_names :: "string list"

text \<open>Lines 197 to 210: the feature row, with the defaults of \<^verbatim>\<open>forecast_data.get\<close> and
  the one-hot persona columns.\<close>

definition input_features :: "(string \<Rightarrow> real option) \<Rightarrow> string \<Rightarrow> real \<Rightarrow> real list" where
  "input_features forecast_data persona_type exposure_duration =
     [dict_get forecast_data ''aqi'' 100,
      dict_get forecast_data ''pm25'' 50,
      dict_get forecast_data ''pm10'' 75,
      dict_get forecast_data ''temperature'' 25,
      dict_get forecast_data ''humidity'' 60,
      dict_get forecast_data ''wind_speed'' 5,
      dict_get forecast_data ''pressure'' 1013,
      dict_get forecast_data ''visibility'' 8,
      exposure_duration,
      if persona_type = ''children_elderly'' then 1 else 0,
      if persona_type = ''outdoor_workers'' then 1 else 0,
      if persona_type = ''general_public'' then 1 else 0]"

definition predict_risk ::
  "HealthRiskClassifier \<Rightarrow> (string \<Rightarrow> real option) \<Rightarrow> string \<Rightarrow> real \<Rightarrow> py_error + risk_result" where
  "predict_risk self forecast_data persona_type exposure_duration =
     (let feats = input_features forecast_data persona_type exposure_duration
      in case hrc_scaler self of
           None \<Rightarrow> Inl NotFittedError
         | Some scaler \<Rightarrow>
             (case standard_transform scaler feats of
                Inl e \<Rightarrow> Inl e
              | Inr features_scaled \<Rightarrow>
                  (case hrc_model self of
                     None \<Rightarrow> Inl AttributeError
                   | Some model \<Rightarrow>
                       (let risk_prediction = predict_proba model features_scaled
                        in case forest_predict model features_scaled of
                             Inl e \<Rightarrow> Inl e
                           | Inr category \<Rightarrow>
                               (case hrc_explainer self of
                                  None \<Rightarrow> Inl AttributeError
                                | Some explainer \<Rightarrow>
                                    Inr \<lparr>risk_category = category,
                                         risk_probabilities =
                                           py_dict (zip (hrc_risk_categories self) risk_prediction),
                                         shap_values = explainer features_scaled,
                                         features = feats,
                                         feature_names = hrc_feature_names self\<rparr>)))))"

definition advice_templates :: "(string \<times> (string \<times> string) list) list" where
  "advice_templates =
     [(''Low'',
       [(''children_elderly'', ''Air quality is safe for outdoor activities. Children and elderly can enjoy normal outdoor play and exercise.''),
        (''outdoor_workers'', ''Working conditions are safe. No special precautions needed for outdoor work.''),
        (''general_public'', ''Air quality is good. Enjoy your normal outdoor activities!'')]),
      (''Moderate'',
       [(''children_elderly'', ''Children and elderly may consider reducing prolonged outdoor exertion. Take breaks during outdoor activities.''),
        (''outdoor_workers'', ''Monitor your health during long outdoor shifts. Consider more frequent breaks in shaded areas.''),
        (''general_public'', ''Unusually sensitive people should consider reducing prolonged outdoor exertion.'')]),
      (''High'',
       [(''children_elderly'', ''Children and elderly should avoid prolonged outdoor exertion. Keep outdoor activities short and take frequent breaks.''),
        (''outdoor_workers'', ''Reduce prolonged outdoor work. Use protective masks if available and monitor for health symptoms.''),
        (''general_public'', ''Avoid prolonged outdoor exertion. Sensitive groups should stay indoors as much as possible.'')]),
      (''Hazardous'',
       [(''children_elderly'', ''Children and elderly should remain indoors. Keep all outdoor activities to an absolute minimum.''),
        (''outdoor_workers'', ''Avoid outdoor work if possible. If unavoidable, use proper respiratory protection and limit exposure time.''),
        (''general_public'', ''Avoid all outdoor activities. Stay indoors and keep windows closed. Use air purifiers if available.'')])]"

definition generate_health_advice :: "string \<Rightarrow> string \<Rightarrow> py_error + string" where
  "generate_health_advice category persona_type =
     (case map_of advice_templates category of
        None \<Rightarrow> Inl KeyError
      | Some row \<Rightarrow>
          (case map_of row persona_type of
             None \<Rightarrow> Inl KeyError
           | Some advice \<Rightarrow> Inr advice))"

subsection \<open>health_risk_api.py, the \<^verbatim>\<open>/health-risk\<close> route\<close>

text \<open>
  The JSON body is represented by its numeric fields, its \<^verbatim>\<open>persona\<close> (a string when
  present) and its \<^verbatim>\<open>exposure_duration\<close> (a number when present). The route answers
  with a status: 400 with a message, 500 for any exception caught by the handler, or 200
  with the assessment.
\<close>

record health_risk_request =
  req_fields :: "string \<Rightarrow> real option"
  req_persona :: "string option"
  req_exposure_duration :: "real option"

record health_risk_body =
  body_category :: string
  body_confidence :: real
  body_probabilities :: "(string \<times> real) list"
  body_explanation :: string
  body_health_advice :: string
  body_persona :: string
  body_exposure_duration :: real

datatype api_response =
    Status_400 string
  | Status_500 py_error
  | Status_200 health_risk_body

definition known_personas :: "string list" where
  "known_personas = [''children_elderly'', ''outdoor_workers'', ''general_public'']"

text \<open>\<^verbatim>\<open>data.get('persona', 'general_public')\<close> and
  \<^verbatim>\<open>data.get('exposure_duration', 2)\<close>.\<close>

definition request_persona :: "health_risk_request \<Rightarrow> string" where
  "request_persona data = (case req_persona data of None \<Rightarrow> ''general_public'' | Some p \<Rightarrow> p)"

definition request_exposure :: "health_risk_request \<Rightarrow> real" where
  "request_exposure data = (case req_exposure_duration data of None \<Rightarrow> 2 | Some h \<Rightarrow> h)"

definition request_forecast_data :: "health_risk_request \<Rightarrow> (string \<Rightarrow> real option)" where
  "request_forecast_data data =
     [''aqi'' \<mapsto> dict_get (req_fields data) ''aqi'' 100,
      ''pm25'' \<mapsto> dict_get (req_fields data) ''pm25'' 50,
      ''pm10'' \<mapsto> dict_get (req_fields data) ''pm10'' 75,
      ''temperature'' \<mapsto> dict_get (req_fields data) ''temperature'' 25,
      ''humidity'' \<mapsto> dict_get (req_fields data) ''humidity'' 60,
      ''wind_speed'' \<mapsto> dict_get (req_fields data) ''wind_speed'' 5,
      ''pressure'' \<mapsto> dict_get (req_fields data) ''pressure'' 1013,
      ''visibility'' \<mapsto> dict_get (req_fields data) ''visibility'' 8]"

definition api_predict_health_risk ::
  "HealthRiskClassifier \<Rightarrow> health_risk_request \<Rightarrow> api_response" where
  "api_predict_health_risk classifier data =
     (let forecast_data = request_forecast_data data;
          persona_type = request_persona data;
          exposure_duration = request_exposure data
      in if persona_type \<notin> set known_personas then Status_400 ''Invalid persona type''
         else if \<not> (0 \<le> exposure_duration \<and> exposure_duration \<le> 24)
           then Status_400 ''Exposure duration must be between 0 and 24 hours''
         else
           (case predict_risk classifier forecast_data persona_type exposure_duration of
              Inl e \<Rightarrow> Status_500 e
            | Inr result \<Rightarrow>
                (case generate_health_advice (risk_category result) persona_type of
                   Inl e \<Rightarrow> Status_500 e
                 | Inr advice \<Rightarrow>
                     (case py_max (dict_values (risk_probabilities result)) of
                        Inl e \<Rightarrow> Status_500 e
                      | Inr conf \<Rightarrow>
                          Status_200
                            \<lparr>body_category = risk_category result,
                             body_confidence = conf,
                             body_probabilities = risk_probabilities result,
                             body_explanation =
                               ''Risk classified as '' @ risk_category result
                                 @ '' based on current environmental conditions and ''
                                 @ map (\<lambda>c. if c = CHR ''_'' then CHR '' '' else c) persona_type
                                 @ '' profile.'',
                             body_health_advice = advice,
                             body_persona = persona_type,
                             body_exposure_duration = exposure_duration\<rparr>))))"

subsection \<open>health_risk_model.py\<close>

text \<open>
  The forest of this module is fitted on the labels encoded by a \<^verbatim>\<open>LabelEncoder\<close>, so
  its classes are numbers; the encoder's \<^verbatim>\<open>classes_\<close> are the sorted label strings and
  \<^verbatim>\<open>inverse_transform\<close> raises \<^verbatim>\<open>ValueError\<close> on a number it has not seen. The three
  pickle files under \<^verbatim>\<open>models/\<close> are each present or absent.
\<close>

record HealthRiskModel =
  hrm_model :: "nat forest option"
  hrm_label_encoder :: "string list option"
  hrm_scaler :: "StandardScaler option"
  hrm_feature_columns :: "string list"

definition HealthRiskModel_init :: HealthRiskModel where
  "HealthRiskModel_init =
     \<lparr>hrm_model = None, hrm_label_encoder = None, hrm_scaler = None,
      hrm_feature_columns =
        [''forecasted_pm25'', ''forecasted_aqi'', ''aqi_trend'', ''wind_speed'', ''humidity'',
         ''exposure_hours'', ''persona_code'', ''who_exceedance_ratio'']\<rparr>"

record model_dir =
  health_risk_model_pkl :: "nat forest option"
  risk_label_encoder_pkl :: "string list option"
  feature_scaler_pkl :: "StandardScaler option"

definition calculate_who_exceedance_ratio :: "real \<Rightarrow> real" where
  "calculate_who_exceedance_ratio pm25_forecast = pm25_forecast / 15"

definition load_model :: "model_dir \<Rightarrow> HealthRiskModel \<Rightarrow> py_error option \<times> HealthRiskModel" where
  "load_model dir self =
     (case health_risk_model_pkl dir of
        None \<Rightarrow> (Some FileNotFoundError, self)
      | Some m \<Rightarrow>
          (let self1 = self\<lparr>hrm_model := Some m\<rparr>
           in case risk_label_encoder_pkl dir of
                None \<Rightarrow> (Some FileNotFoundError, self1)
              | Some le \<Rightarrow>
                  (let self2 = self1\<lparr>hrm_label_encoder := Some le\<rparr>
                   in case feature_scaler_pkl dir of
                        None \<Rightarrow> (Some FileNotFoundError, self2)
                      | Some sc \<Rightarrow> (None, self2\<lparr>hrm_scaler := Some sc\<rparr>))))"

definition inverse_transform_label :: "string list \<Rightarrow> nat \<Rightarrow> py_error + string" where
  "inverse_transform_label classes i =
     (if i < length classes then Inr (classes ! i) else Inl ValueError)"

text \<open>The dictionary comprehension over \<^verbatim>\<open>enumerate(prediction_proba)\<close>.\<close>

fun enumerate_labels :: "string list \<Rightarrow> nat \<Rightarrow> real list \<Rightarrow> py_error + (string \<times> real) list" where
  "enumerate_labels classes i [] = Inr []"
| "enumerate_labels classes i (prob # rest) =
     (case inverse_transform_label classes i of
        Inl e \<Rightarrow> Inl e
      | Inr label \<Rightarrow>
          (case enumerate_labels classes (Suc i) rest of
             Inl e \<Rightarrow> Inl e
           | Inr items \<Rightarrow> Inr ((label, prob) # items)))"

definition color_mapping :: "(string \<times> string) list" where
  "color_mapping =
     [(''Low'', ''#00e400''), (''Moderate'', ''#ffff00''),
      (''High'', ''#ff0000''), (''Hazardous'', ''#7e0023'')]"

record health_risk =
  hr_risk_category :: string
  hr_confidence :: real
  hr_color :: string
  hr_risk_score :: real
  hr_all_probabilities :: "(string \<times> real) list"

text \<open>Lines 177 to 189: the row \<^verbatim>\<open>input_df[self.feature_columns]\<close>.\<close>

definition input_row :: "HealthRiskModel \<Rightarrow> (string \<Rightarrow> real option) \<Rightarrow> py_error + real list" where
  "input_row self forecast_data =
     (case (if forecast_data ''who_exceedance_ratio'' = None then
              (case forecast_data ''forecasted_pm25'' of
                 None \<Rightarrow> Inl KeyError
               | Some pm25 \<Rightarrow>
                   Inr (forecast_data(''who_exceedance_ratio'' \<mapsto> calculate_who_exceedance_ratio pm25)))
            else Inr forecast_data) of
        Inl e \<Rightarrow> Inl e
      | Inr input_df \<Rightarrow>
          (if \<not> list_all (\<lambda>feature. input_df feature \<noteq> None) (hrm_feature_columns self)
           then Inl ValueError
           else Inr (map (\<lambda>feature. the (input_df feature)) (hrm_feature_columns self))))"

text \<open>Lines 198 to 219: the returned dictionary, from the probability vector and the
  predicted class.\<close>

definition risk_summary :: "string list \<Rightarrow> real list \<Rightarrow> nat \<Rightarrow> py_error + health_risk" where
  "risk_summary classes prediction_proba prediction_index =
     (case inverse_transform_label classes prediction_index of
        Inl e \<Rightarrow> Inl e
      | Inr category \<Rightarrow>
          (case py_max prediction_proba of
             Inl e \<Rightarrow> Inl e
           | Inr conf \<Rightarrow>
               (if \<not> prediction_index < length prediction_proba then Inl IndexError
                else
                  (case enumerate_labels classes 0 prediction_proba of
                     Inl e \<Rightarrow> Inl e
                   | Inr items \<Rightarrow>
                       Inr \<lparr>hr_risk_category = category,
                            hr_confidence = conf,
                            hr_color =
                              (case map_of color_mapping category of
                                 None \<Rightarrow> ''#808080''
                               | Some c \<Rightarrow> c),
                            hr_risk_score = prediction_proba ! prediction_index,
                            hr_all_probabilities = py_dict items\<rparr>))))"

text \<open>Lines 177 to 219, once the artifacts are in memory.\<close>

definition predict_loaded :: "HealthRiskModel \<Rightarrow> (string \<Rightarrow> real option) \<Rightarrow> py_error + health_risk" where
  "predict_loaded self forecast_data =
     (case input_row self forecast_data of
        Inl e \<Rightarrow> Inl e
      | Inr row \<Rightarrow>
          (case hrm_scaler self of
             None \<Rightarrow> Inl AttributeError
           | Some scaler \<Rightarrow>
               (case standard_transform scaler row of
                  Inl e \<Rightarrow> Inl e
                | Inr X_scaled \<Rightarrow>
                    (case hrm_model self of
                       None \<Rightarrow> Inl AttributeError
                     | Some model \<Rightarrow>
                         (let prediction_proba = predict_proba model X_scaled
                          in case forest_predict model X_scaled of
                               Inl e \<Rightarrow> Inl e
                             | Inr prediction_index \<Rightarrow>
                                 (case hrm_label_encoder self of
                                    None \<Rightarrow> Inl AttributeError
                                  | Some classes \<Rightarrow>
                                      risk_summary classes prediction_proba prediction_index))))))"

definition predict_health_risk ::
  "model_dir \<Rightarrow> HealthRiskModel \<Rightarrow> (string \<Rightarrow> real option)
     \<Rightarrow> (py_error + health_risk) \<times> HealthRiskModel" where
  "predict_health_risk dir self forecast_data =
     (case (if hrm_model self = None then load_model dir self else (None, self)) of
        (Some e, self') \<Rightarrow> (Inl e, self')
      | (None, self') \<Rightarrow> (predict_loaded self' forecast_data, self'))"

subsection \<open>The policy of the specification\<close>

text \<open>
  The specification asks for the category with the largest probability, ties going to the
  more severe category (Hazardous, then High, then Moderate, then Low). This definition
  follows the specification's words, for comparison with what the code returns.
\<close>

definition severity_order :: "string list" where
  "severity_order = [''Hazardous'', ''High'', ''Moderate'', ''Low'']"

definition spec_argmax_severity :: "(string \<times> real) list \<Rightarrow> string option" where
  "spec_argmax_severity probabilities =
     find (\<lambda>label. case map_of probabilities label of
                      None \<Rightarrow> False
                    | Some p \<Rightarrow> list_all (\<lambda>q. q \<le> p) (dict_values probabilities))
          severity_order"

subsection \<open>Concrete inputs\<close>

text \<open>
  A small network (half the mean of the window plus a quarter), a directory that holds it
  as a saved model, and a stand-in for Keras: its fit raises when it is handed no pair at
  all and returns the small network otherwise, and its save accepts the file names that
  end in \<^verbatim>\<open>.keras\<close>.
\<close>

definition demo_model :: forecast_model where
  "demo_model w = sum_list w / (2 * real (length w)) + 1 / 4"

definition demo_history :: fit_history where
  "demo_history = [''loss'' \<mapsto> [1 / 4, 1 / 8], ''val_loss'' \<mapsto> [1 / 2, 1 / 4]]"

definition demo_files :: model_files where
  "demo_files = [''Vashi_model.keras'' \<mapsto> demo_model]"

definition demo_keras :: keras where
  "demo_keras =
     \<lparr>model_fit = (\<lambda>X_train y_train X_val y_val epochs.
                     if X_train = [] \<and> X_val = [] then Inl FitError
                     else Inr (demo_model, demo_history)),
      model_save = (\<lambda>path. if drop (length path - 6) path = ''.keras'' then None
                            else Some ValueError)\<rparr>"

text \<open>
  A fitted classifier: a scaler for the twelve features, a forest with the sorted class
  labels that looks at the scaled AQI only, and an explainer.
\<close>

definition demo_standard_scaler :: StandardScaler where
  "demo_standard_scaler =
     \<lparr>mean_attr = [100, 50, 75, 25, 60, 5, 1013, 8, 6, 1 / 3, 1 / 3, 1 / 3],
      std_attr = [50, 40, 60, 8, 20, 5, 10, 3, 3, 1 / 2, 1 / 2, 1 / 2]\<rparr>"

definition sorted_labels :: "string list" where
  "sorted_labels = [''Hazardous'', ''High'', ''Low'', ''Moderate'']"

definition demo_proba :: "real list \<Rightarrow> real list" where
  "demo_proba x =
     (if hd x \<le> 0 then [0, 1 / 10, 4 / 5, 1 / 10] else [7 / 10, 1 / 10, 1 / 10, 1 / 10])"

definition demo_classifier :: HealthRiskClassifier where
  "demo_classifier =
     HealthRiskClassifier_init
       \<lparr>hrc_model := Some \<lparr>classes_attr = sorted_labels, predict_proba = demo_proba\<rparr>,
        hrc_scaler := Some demo_standard_scaler,
        hrc_explainer := Some (\<lambda>x. [])\<rparr>"

definition polluted :: "string \<Rightarrow> real option" where
  "polluted = [''aqi'' \<mapsto> 250, ''pm25'' \<mapsto> 150, ''pm10'' \<mapsto> 200, ''temperature'' \<mapsto> 35,
               ''humidity'' \<mapsto> 85, ''wind_speed'' \<mapsto> 1, ''pressure'' \<mapsto> 1005, ''visibility'' \<mapsto> 2]"

text \<open>
  The artifacts of \<^verbatim>\<open>health_risk_model.py\<close> on disk: a forest over the encoded labels
  whose two largest probabilities, for Low and Moderate, are equal.
\<close>

definition demo_risk_scaler :: StandardScaler where
  "demo_risk_scaler =
     \<lparr>mean_attr = [15, 60, 0, 2, 50, 5, 1, 1], std_attr = [10, 40, 1, 2, 20, 4, 1, 1]\<rparr>"

definition tied_proba :: "real list \<Rightarrow> real list" where
  "tied_proba x = [1 / 10, 1 / 10, 2 / 5, 2 / 5]"

definition demo_dir :: model_dir where
  "demo_dir =
     \<lparr>health_risk_model_pkl = Some \<lparr>classes_attr = [0, 1, 2, 3], predict_proba = tied_proba\<rparr>,
      risk_label_encoder_pkl = Some sorted_labels,
      feature_scaler_pkl = Some demo_risk_scaler\<rparr>"

definition example_forecast :: "string \<Rightarrow> real option" where
  "example_forecast =
     [''forecasted_pm25'' \<mapsto> 71 / 2, ''forecasted_aqi'' \<mapsto> 125, ''aqi_trend'' \<mapsto> 1,
      ''wind_speed'' \<mapsto> 21 / 10, ''humidity'' \<mapsto> 65, ''exposure_hours'' \<mapsto> 4,
      ''persona_code'' \<mapsto> 1]"

section \<open>Properties of the embedding\<close>

subsection \<open>The scaler\<close>

lemma handle_zeros_in_scale_pos: "0 \<le> r \<Longrightarrow> 0 < handle_zeros_in_scale r"
  by (auto simp: handle_zeros_in_scale_def float_eps_def not_less intro: less_le_trans[of 0 "10 * (1 / 2 ^ 52)" r])

lemma fold_min_le: "fold min xs (a::real) \<le> a"
proof (induction xs arbitrary: a)
  case Nil
  show ?case by simp
next
  case (Cons x xs)
  have "fold min xs (min x a) \<le> min x a" by (rule Cons.IH)
  then show ?case by simp
qed

lemma fold_max_ge: "(a::real) \<le> fold max xs a"
proof (induction xs arbitrary: a)
  case Nil
  show ?case by simp
next
  case (Cons x xs)
  have "max x a \<le> fold max xs (max x a)" by (rule Cons.IH)
  then show ?case by simp
qed

lemma np_min_le_np_max: "xs \<noteq> [] \<Longrightarrow> np_min xs \<le> np_max xs"
  by (cases xs) (auto simp: np_min_def np_max_def intro: order_trans[OF fold_min_le fold_max_ge])

lemma scaler_fit_scale_pos:
  assumes "scaler_fit series = Inr scaler"
  shows "0 < scale_attr scaler"
proof -
  from assms have ne: "series \<noteq> []" by (auto simp: scaler_fit_def split: if_splits)
  then have "0 \<le> np_max series - np_min series" using np_min_le_np_max by simp
  then have "0 < handle_zeros_in_scale (np_max series - np_min series)"
    by (rule handle_zeros_in_scale_pos)
  moreover from assms ne have "scale_attr scaler = 1 / handle_zeros_in_scale (np_max series - np_min series)"
    by (auto simp: scaler_fit_def Let_def)
  ultimately show ?thesis by simp
qed

lemma scaler_fit_nonempty: "scaler_fit df = Inr sc \<Longrightarrow> df \<noteq> []"
  by (auto simp: scaler_fit_def split: if_splits)

lemma scaler_fit_transform_eq:
  assumes "scaler_fit df = Inr sc"
  shows "scaler_fit_transform df = Inr (sc, map (scale_value sc) df)"
  using assms scaler_fit_nonempty[OF assms]
  by (simp add: scaler_fit_transform_def scaler_transform_def)

lemma scaler_fit_total: "df \<noteq> [] \<Longrightarrow> \<exists>sc. scaler_fit df = Inr sc"
  by (simp add: scaler_fit_def Let_def)

lemma scaler_fit_transform_empty: "scaler_fit_transform [] = Inl ValueError"
  by (simp add: scaler_fit_transform_def scaler_fit_def)

subsection \<open>The prediction loop\<close>

lemma predict_steps_acc:
  assumes "length w = ws" "0 < ws"
  shows "\<exists>ps. predict_steps m ws n w acc = Inr (acc @ ps) \<and> length ps = n \<and>
           (\<forall>k<n. ps ! k = m (drop k (w @ take k ps)))"
  using assms
proof (induction n arbitrary: w acc)
  case 0
  then show ?case by simp
next
  case (Suc n)
  let ?p = "m w"
  from Suc.prems have wne: "w \<noteq> []" by auto
  then have len: "length (tl w @ [?p]) = ws" using Suc.prems by simp
  from Suc.IH[OF len Suc.prems(2), of "acc @ [?p]"]
  obtain ps where ps: "predict_steps m ws n (tl w @ [?p]) (acc @ [?p]) = Inr ((acc @ [?p]) @ ps)"
    "length ps = n" "\<forall>k<n. ps ! k = m (drop k ((tl w @ [?p]) @ take k ps))"
    by blast
  have step: "predict_steps m ws (Suc n) w acc = Inr (acc @ (?p # ps))"
    using Suc.prems ps(1) by (simp add: Let_def)
  have "\<forall>k<Suc n. (?p # ps) ! k = m (drop k (w @ take k (?p # ps)))"
  proof (intro allI impI)
    fix k assume k: "k < Suc n"
    show "(?p # ps) ! k = m (drop k (w @ take k (?p # ps)))"
    proof (cases k)
      case 0
      then show ?thesis by simp
    next
      case (Suc j)
      with k have j: "j < n" by simp
      have "drop (Suc j) (w @ take (Suc j) (?p # ps)) = drop j (tl (w @ ?p # take j ps))"
        by (simp only: drop_Suc take_Suc_Cons)
      also have "tl (w @ ?p # take j ps) = (tl w @ [?p]) @ take j ps"
        using wne by simp
      finally show ?thesis using ps(3) j Suc by simp
    qed
  qed
  with step ps(2) show ?case by (intro exI[of _ "?p # ps"]) simp
qed

lemma predict_steps_window_length:
  assumes "predict_steps m ws (Suc n) w acc = Inr ps"
  shows "length w = ws"
  using assms by (auto split: if_splits)

lemma predict_steps_zero_window: "predict_steps m 0 (Suc (Suc n)) w acc = Inl ValueError"
  by (cases w) simp_all

lemma slide_window:
  assumes "k < length ps" "w \<noteq> []"
  shows "drop (Suc k) (w @ take (Suc k) ps) = tl (drop k (w @ take k ps)) @ [ps ! k]"
proof -
  have "take (Suc k) ps = take k ps @ [ps ! k]"
    using assms(1) by (simp add: take_Suc_conv_app_nth)
  then have "drop (Suc k) (w @ take (Suc k) ps) = drop (Suc k) ((w @ take k ps) @ [ps ! k])"
    by simp
  also have "\<dots> = drop (Suc k) (w @ take k ps) @ [ps ! k]"
  proof -
    have "Suc k \<le> length (w @ take k ps)"
      using assms by (cases w) (simp_all add: min_def)
    then show ?thesis by simp
  qed
  also have "drop (Suc k) (w @ take k ps) = tl (drop k (w @ take k ps))"
    by (simp only: drop_Suc tl_drop)
  finally show ?thesis .
qed

lemma last_sequence_length:
  assumes "scaled \<noteq> []" "0 < ws"
  shows "\<exists>w. last_sequence scaled ws = Inr w \<and> length w = ws"
  using assms by (cases scaled) (auto simp: last_sequence_def)

lemma forecast_from_length:
  assumes "scaled \<noteq> []" "0 < ws" "0 < hours"
  shows "\<exists>ps. forecast_from m sc scaled hours ws = Inr ps \<and> length ps = hours"
proof -
  from last_sequence_length[OF assms(1,2)] obtain w where
    w: "last_sequence scaled ws = Inr w" "length w = ws" by blast
  from predict_steps_acc[OF w(2) assms(2), of m hours "[]"] obtain ps where
    ps: "predict_steps m ws hours w [] = Inr ps" "length ps = hours" by auto
  with assms(3) have "ps \<noteq> []" by auto
  then show ?thesis using w ps
    by (simp add: forecast_from_def scaler_inverse_transform_def)
qed

lemma forecast_cached:
  assumes "load_existing_model files path = Some m" "scaler_fit df = Inr sc"
  shows "forecast_next_hours keras files df path hours ws epochs =
           (forecast_from m sc (map (scale_value sc) df) hours ws, files)"
  using assms(1) scaler_fit_transform_eq[OF assms(2)]
  by (simp add: forecast_next_hours_def load_or_train_def)

lemma forecast_empty_series:
  "forecast_next_hours keras files [] path hours ws epochs = (Inl ValueError, files)"
  by (simp add: forecast_next_hours_def load_or_train_def scaler_fit_transform_empty)

subsection \<open>Training and loading\<close>

lemma create_sequences_length:
  "create_sequences data ws = (X, y) \<Longrightarrow> length X = length data - ws \<and> length y = length data - ws"
  by (auto simp: create_sequences_def)

lemma create_sequences_nth:
  assumes "create_sequences (map f df) ws = (X, y)" "i < length df - ws"
  shows "X ! i = map f (take ws (drop i df))" "y ! i = f (df ! (i + ws))"
  using assms by (auto simp: create_sequences_def take_map drop_map)

lemma train_model_empty: "train_model keras files [] path ws epochs = (Inl ValueError, files)"
  by (simp add: train_model_def scaler_fit_transform_empty)

lemma train_model_fit:
  assumes "scaler_fit df = Inr sc" "create_sequences (map (scale_value sc) df) ws = (X, y)"
  shows "train_model keras files df path ws epochs =
           (case model_fit keras
                   (take (split_index (length X)) X) (take (split_index (length X)) y)
                   (drop (split_index (length X)) X) (drop (split_index (length X)) y) epochs of
              Inl e \<Rightarrow> (Inl e, files)
            | Inr (m, h) \<Rightarrow>
                (case model_save keras (replace_h5 path) of
                   Some e \<Rightarrow> (Inl e, files)
                 | None \<Rightarrow> (Inr (m, sc, h), files(replace_h5 path \<mapsto> m))))"
  using scaler_fit_transform_eq[OF assms(1)] assms(2)
  by (simp add: train_model_def Let_def split: sum.splits prod.splits option.splits)

lemma train_model_result:
  assumes "train_model keras files df path ws epochs = (Inr (m, sc, h), files')"
  shows "scaler_fit df = Inr sc \<and> files' = files(replace_h5 path \<mapsto> m)"
proof -
  from assms have "df \<noteq> []"
    by (auto simp: train_model_empty)
  from scaler_fit_total[OF this] obtain sc' where sc': "scaler_fit df = Inr sc'" by blast
  obtain X y where xy: "create_sequences (map (scale_value sc') df) ws = (X, y)"
    by (cases "create_sequences (map (scale_value sc') df) ws") auto
  from assms show ?thesis
    unfolding train_model_fit[OF sc' xy] using sc'
    by (auto split: sum.splits option.splits)
qed

lemma load_after_save: "load_existing_model (files(replace_h5 path \<mapsto> m)) path = Some m"
  by (simp add: load_existing_model_def)

lemma forecast_next_hours_from:
  assumes "forecast_next_hours keras files df path hours ws epochs = (Inr predictions, files')"
  shows "\<exists>model scaler. scaler_fit df = Inr scaler
           \<and> forecast_from model scaler (map (scale_value scaler) df) hours ws = Inr predictions
           \<and> (load_existing_model files path = Some model
                \<or> load_existing_model files path = None
                  \<and> (\<exists>history. train_model keras files df path ws epochs
                                  = (Inr (model, scaler, history), files')))"
proof -
  from assms have "df \<noteq> []" by (auto simp: forecast_empty_series)
  from scaler_fit_total[OF this] obtain sc where sc: "scaler_fit df = Inr sc" by blast
  note ft = scaler_fit_transform_eq[OF sc]
  show ?thesis
  proof (cases "load_existing_model files path")
    case (Some m)
    from assms forecast_cached[OF Some sc, of keras hours ws epochs] sc Some show ?thesis by auto
  next
    case None
    show ?thesis
    proof (cases "train_model keras files df path ws epochs")
      case (Pair res files1)
      show ?thesis
      proof (cases res)
        case (Inl e)
        with assms None Pair ft show ?thesis
          by (simp add: forecast_next_hours_def load_or_train_def)
      next
        case (Inr t)
        obtain m sc' h where t: "t = (m, sc', h)" by (cases t) auto
        from train_model_result[of keras files df path ws epochs m sc' h files1] Pair Inr t sc
        have same: "sc' = sc" by simp
        from assms None Pair Inr t ft
        have "forecast_from m sc (map (scale_value sc) df) hours ws = Inr predictions"
          and "files1 = files'"
          by (auto simp: forecast_next_hours_def load_or_train_def same split: sum.splits)
        with sc None Pair Inr t same show ?thesis by auto
      qed
    qed
  qed
qed

subsection \<open>Dictionaries, maxima and the arg-max\<close>

lemma dict_set_fresh: "k \<notin> fst ` set d \<Longrightarrow> dict_set d k v = d @ [(k, v)]"
  by (induction d) auto

lemma fold_dict_set_distinct:
  "distinct (map fst (d @ items)) \<Longrightarrow> fold (\<lambda>(k, v) d. dict_set d k v) items d = d @ items"
proof (induction items arbitrary: d)
  case Nil
  then show ?case by simp
next
  case (Cons kv items)
  obtain k v where kv: "kv = (k, v)" by (cases kv)
  from Cons.prems have fresh: "k \<notin> fst ` set d" by (auto simp: kv)
  from Cons.prems have "distinct (map fst ((d @ [(k, v)]) @ items))" by (auto simp: kv)
  from Cons.IH[OF this] show ?case by (simp add: kv dict_set_fresh[OF fresh])
qed

lemma py_dict_distinct: "distinct (map fst items) \<Longrightarrow> py_dict items = items"
  using fold_dict_set_distinct[of "[]" items] by (simp add: py_dict_def)

lemma fold_max_Max: "fold max xs (x::real) = Max (set (x # xs))"
  by (simp only: Max.set_eq_fold)

lemma py_max_total: "xs \<noteq> [] \<Longrightarrow> py_max xs = Inr (Max (set xs))"
  by (cases xs) (simp_all add: py_max_def fold_max_Max del: set_simps)

lemma py_max_Max: "py_max xs = Inr v \<Longrightarrow> xs \<noteq> [] \<and> v = Max (set xs)"
proof (cases xs)
  case Nil
  assume "py_max xs = Inr v"
  with Nil show ?thesis by (simp add: py_max_def)
next
  case (Cons a list)
  assume "py_max xs = Inr v"
  with py_max_total[of xs] Cons show ?thesis by simp
qed

lemma np_argmax_less: "p \<noteq> [] \<Longrightarrow> np_argmax p < length p"
proof (induction p)
  case Nil
  then show ?case by simp
next
  case (Cons a p)
  show ?case
  proof (cases "list_all (\<lambda>y. y \<le> a) p")
    case True
    then show ?thesis by simp
  next
    case False
    then have "p \<noteq> []" by auto
    with Cons.IH False show ?thesis by simp
  qed
qed

lemma np_argmax_greatest: "x \<in> set p \<Longrightarrow> x \<le> p ! np_argmax p"
proof (induction p arbitrary: x)
  case Nil
  then show ?case by simp
next
  case (Cons a p)
  show ?case
  proof (cases "list_all (\<lambda>y. y \<le> a) p")
    case True
    then show ?thesis using Cons.prems by (auto simp: list_all_iff)
  next
    case False
    then obtain y where y: "y \<in> set p" "a < y" by (auto simp: list_all_iff not_le)
    from Cons.IH[OF y(1)] y(2) have "a \<le> p ! np_argmax p" by simp
    with False Cons show ?thesis by auto
  qed
qed

lemma np_argmax_Max: "p \<noteq> [] \<Longrightarrow> p ! np_argmax p = Max (set p)"
proof -
  assume ne: "p \<noteq> []"
  then have "p ! np_argmax p \<in> set p" using np_argmax_less by simp
  then show ?thesis using np_argmax_greatest[of _ p] ne
    by (intro antisym Max_ge Max.boundedI) auto
qed

lemma np_argmax_first: "j < np_argmax p \<Longrightarrow> p ! j < p ! np_argmax p"
proof (induction p arbitrary: j)
  case Nil
  then show ?case by simp
next
  case (Cons a p)
  from Cons.prems have notall: "\<not> list_all (\<lambda>y. y \<le> a) p" by (auto split: if_splits)
  then obtain y where y: "y \<in> set p" "a < y" by (auto simp: list_all_iff not_le)
  show ?case
  proof (cases j)
    case 0
    from np_argmax_greatest[OF y(1)] y(2) have "a < p ! np_argmax p" by simp
    with notall 0 show ?thesis by simp
  next
    case (Suc i)
    with Cons.prems notall have "i < np_argmax p" by simp
    from Cons.IH[OF this] notall Suc show ?thesis by simp
  qed
qed

lemma map_of_zip_nth:
  "distinct xs \<Longrightarrow> i < length xs \<Longrightarrow> i < length ys \<Longrightarrow> map_of (zip xs ys) (xs ! i) = Some (ys ! i)"
proof (induction xs arbitrary: ys i)
  case Nil
  then show ?case by simp
next
  case (Cons x xs)
  then obtain y ys' where ys: "ys = y # ys'" by (cases ys) auto
  show ?case
  proof (cases i)
    case 0
    then show ?thesis by (simp add: ys)
  next
    case (Suc k)
    with Cons.prems have k: "k < length xs" "k < length ys'" and d: "distinct xs"
      and fresh: "x \<noteq> xs ! k" by (auto simp: ys)
    from Cons.IH[OF d k] fresh show ?thesis by (simp add: ys Suc)
  qed
qed

subsection \<open>The risk classifiers\<close>

lemma enumerate_labels_zip:
  "enumerate_labels classes i proba = Inr items \<Longrightarrow>
     items = zip (drop i classes) proba \<and> (proba \<noteq> [] \<longrightarrow> i + length proba \<le> length classes)"
proof (induction proba arbitrary: i items)
  case Nil
  then show ?case by simp
next
  case (Cons p proba)
  from Cons.prems have i: "i < length classes"
    by (auto simp: inverse_transform_label_def split: if_splits sum.splits)
  from Cons.prems i obtain rest where rest: "enumerate_labels classes (Suc i) proba = Inr rest"
    and items: "items = (classes ! i, p) # rest"
    by (auto simp: inverse_transform_label_def split: sum.splits)
  from Cons.IH[OF rest] have r: "rest = zip (drop (Suc i) classes) proba"
    "proba \<noteq> [] \<longrightarrow> Suc i + length proba \<le> length classes" by simp_all
  have "drop i classes = classes ! i # drop (Suc i) classes"
    using i by (simp add: Cons_nth_drop_Suc)
  then show ?case using items r i by auto
qed

lemma risk_summary_result:
  assumes "risk_summary classes proba idx = Inr r" and "distinct classes"
  shows "hr_all_probabilities r = zip classes proba" "length proba \<le> length classes"
    "proba \<noteq> []" "hr_confidence r = Max (set proba)" "hr_risk_category r = classes ! idx"
    "idx < length proba"
proof -
  from assms(1) have idx: "idx < length classes" and cat: "inverse_transform_label classes idx = Inr (classes ! idx)"
    by (auto simp: risk_summary_def inverse_transform_label_def split: sum.splits if_splits)
  from assms(1) cat obtain conf where conf: "py_max proba = Inr conf"
    by (auto simp: risk_summary_def split: sum.splits)
  from assms(1) cat conf have idxp: "idx < length proba"
    by (auto simp: risk_summary_def split: sum.splits if_splits)
  from assms(1) cat conf idxp obtain items where items: "enumerate_labels classes 0 proba = Inr items"
    and r: "r = \<lparr>hr_risk_category = classes ! idx, hr_confidence = conf,
               hr_color = (case map_of color_mapping (classes ! idx) of None \<Rightarrow> ''#808080'' | Some c \<Rightarrow> c),
               hr_risk_score = proba ! idx, hr_all_probabilities = py_dict items\<rparr>"
    by (auto simp: risk_summary_def split: sum.splits)
  from py_max_Max[OF conf] show "proba \<noteq> []" and "hr_confidence r = Max (set proba)"
    by (simp_all add: r)
  from enumerate_labels_zip[OF items] \<open>proba \<noteq> []\<close>
  have iz: "items = zip classes proba" and len: "length proba \<le> length classes" by simp_all
  show "length proba \<le> length classes" by (rule len)
  have "distinct (map fst items)"
    using assms(2) len by (simp add: iz map_fst_zip_take)
  then show "hr_all_probabilities r = zip classes proba"
    by (simp add: r py_dict_distinct iz)
  show "hr_risk_category r = classes ! idx" by (simp add: r)
  show "idx < length proba" by (rule idxp)
qed

lemma predict_health_risk_loaded:
  assumes "predict_health_risk dir self forecast_data = (Inr r, self')"
  shows "predict_loaded self' forecast_data = Inr r"
  using assms by (auto simp: predict_health_risk_def split: if_splits prod.splits option.splits)

lemma predict_loaded_summary:
  assumes "predict_loaded self forecast_data = Inr r"
    and "hrm_model self = Some model" and "hrm_label_encoder self = Some classes"
  shows "\<exists>x idx. forest_predict model x = Inr idx
           \<and> risk_summary classes (predict_proba model x) idx = Inr r"
  using assms by (auto simp: predict_loaded_def Let_def split: sum.splits option.splits)

lemma forest_predict_index:
  assumes "forest_predict model x = Inr idx" and "classes_attr model = [0 ..< n]"
  shows "idx = np_argmax (predict_proba model x)"
  using assms by (auto simp: forest_predict_def Let_def split: if_splits)

lemma health_risk_model_result:
  assumes "predict_health_risk dir self forecast_data = (Inr r, self')"
    and "hrm_model self' = Some model" and "hrm_label_encoder self' = Some classes"
    and "distinct classes" and "classes_attr model = [0 ..< length classes]"
    and "\<And>x. length (predict_proba model x) = length classes"
    and "\<And>x. \<bar>sum_list (predict_proba model x) - 1\<bar> \<le> 1 / 10 ^ 6"
  shows "\<bar>sum_list (dict_values (hr_all_probabilities r)) - 1\<bar> \<le> 1 / 10 ^ 6
         \<and> map fst (hr_all_probabilities r) = classes
         \<and> hr_confidence r = Max (set (dict_values (hr_all_probabilities r)))
         \<and> hr_risk_category r = classes ! np_argmax (dict_values (hr_all_probabilities r))
         \<and> map_of (hr_all_probabilities r) (hr_risk_category r) = Some (hr_confidence r)
         \<and> (j < np_argmax (dict_values (hr_all_probabilities r))
              \<longrightarrow> dict_values (hr_all_probabilities r) ! j < hr_confidence r)"
proof -
  from predict_loaded_summary[OF predict_health_risk_loaded[OF assms(1)] assms(2,3)]
  obtain x idx where idx: "forest_predict model x = Inr idx"
    and sm: "risk_summary classes (predict_proba model x) idx = Inr r" by blast
  let ?proba = "predict_proba model x"
  note rs = risk_summary_result[OF sm assms(4)]
  have len: "length ?proba = length classes" by (rule assms(6))
  have vals: "dict_values (hr_all_probabilities r) = ?proba"
    using len by (simp add: rs(1) dict_values_def)
  have keys: "map fst (hr_all_probabilities r) = classes"
    using len by (simp add: rs(1))
  have am: "idx = np_argmax ?proba" by (rule forest_predict_index[OF idx assms(5)])
  have conf: "hr_confidence r = ?proba ! idx"
    using np_argmax_Max[OF rs(3)] by (simp add: rs(4) am)
  have look: "map_of (hr_all_probabilities r) (hr_risk_category r) = Some (hr_confidence r)"
    using map_of_zip_nth[OF assms(4), of idx ?proba] rs(6) len by (simp add: rs(1,5) conf)
  have first: "j < np_argmax ?proba \<longrightarrow> ?proba ! j < hr_confidence r"
    using np_argmax_first[of j ?proba] by (simp add: conf am)
  show ?thesis
    using assms(7)[of x] keys look first by (simp add: vals rs(4,5) am)
qed

lemma predict_risk_result:
  assumes "predict_risk self forecast_data persona_type exposure_duration = Inr r"
    and "hrc_model self = Some model" and "hrc_scaler self = Some scaler"
    and "standard_transform scaler (input_features forecast_data persona_type exposure_duration) = Inr x"
  shows "risk_probabilities r = py_dict (zip (hrc_risk_categories self) (predict_proba model x))"
    "forest_predict model x = Inr (risk_category r)"
  using assms by (auto simp: predict_risk_def Let_def split: sum.splits option.splits)

lemma predict_risk_scaled:
  assumes "predict_risk self forecast_data persona_type exposure_duration = Inr r"
  shows "\<exists>model scaler x. hrc_model self = Some model \<and> hrc_scaler self = Some scaler
           \<and> standard_transform scaler (input_features forecast_data persona_type exposure_duration) = Inr x"
  using assms by (auto simp: predict_risk_def Let_def split: sum.splits option.splits)

lemma predict_risk_sum:
  assumes "predict_risk classifier forecast_data persona_type exposure_duration = Inr rr"
    and "hrc_model classifier = Some forest" and "distinct (hrc_risk_categories classifier)"
    and "\<And>x. length (predict_proba forest x) \<le> length (hrc_risk_categories classifier)"
    and "\<And>x. \<bar>sum_list (predict_proba forest x) - 1\<bar> \<le> 1 / 10 ^ 6"
  shows "\<bar>sum_list (dict_values (risk_probabilities rr)) - 1\<bar> \<le> 1 / 10 ^ 6"
proof -
  from predict_risk_scaled[OF assms(1)] assms(2) obtain scaler x where
    sc: "hrc_scaler classifier = Some scaler"
    and x: "standard_transform scaler
              (input_features forecast_data persona_type exposure_duration) = Inr x"
    by auto
  let ?proba = "predict_proba forest x"
  let ?items = "zip (hrc_risk_categories classifier) ?proba"
  have "distinct (map fst ?items)"
    using assms(3) by (simp add: map_fst_zip_take)
  then have "risk_probabilities rr = ?items"
    using predict_risk_result(1)[OF assms(1,2) sc x] by (simp add: py_dict_distinct)
  then have "dict_values (risk_probabilities rr) = ?proba"
    using assms(4)[of x] by (simp add: dict_values_def map_snd_zip_take min_def)
  then show ?thesis using assms(5)[of x] by simp
qed

lemma predict_risk_total:
  assumes "hrc_scaler self = Some scaler" and "length (mean_attr scaler) = 12"
    and "hrc_model self = Some model"
    and "\<And>x. predict_proba model x \<noteq> []"
    and "\<And>x. length (predict_proba model x) \<le> length (classes_attr model)"
    and "hrc_explainer self = Some explainer"
  shows "\<exists>r. predict_risk self forecast_data persona_type exposure_duration = Inr r"
proof -
  have "length (input_features forecast_data persona_type exposure_duration) = 12"
    by (simp add: input_features_def)
  then obtain x where x: "standard_transform scaler
      (input_features forecast_data persona_type exposure_duration) = Inr x"
    using assms(2) by (simp add: standard_transform_def)
  have "np_argmax (predict_proba model x) < length (classes_attr model)"
    using np_argmax_less[OF assms(4)[of x]] assms(5)[of x] by simp
  then obtain c where "forest_predict model x = Inr c"
    using assms(4)[of x] by (simp add: forest_predict_def Let_def)
  then show ?thesis using assms(1,3,6) x
    by (simp add: predict_risk_def Let_def)
qed

lemma api_rejects_persona:
  "request_persona data \<notin> set known_personas \<Longrightarrow>
     api_predict_health_risk classifier data = Status_400 ''Invalid persona type''"
  by (simp add: api_predict_health_risk_def Let_def)

lemma api_rejects_exposure:
  "request_persona data \<in> set known_personas \<Longrightarrow>
   \<not> (0 \<le> request_exposure data \<and> request_exposure data \<le> 24) \<Longrightarrow>
     api_predict_health_risk classifier data
       = Status_400 ''Exposure duration must be between 0 and 24 hours''"
  by (simp add: api_predict_health_risk_def Let_def)

lemma api_accepts:
  "request_persona data \<in> set known_personas \<Longrightarrow>
   0 \<le> request_exposure data \<Longrightarrow> request_exposure data \<le> 24 \<Longrightarrow>
     api_predict_health_risk classifier data \<noteq> Status_400 msg"
  by (simp add: api_predict_health_risk_def Let_def split: sum.splits)

lemma api_confidence:
  "api_predict_health_risk classifier data = Status_200 body \<Longrightarrow>
     body_confidence body = Max (set (dict_values (body_probabilities body)))"
  by (auto simp: api_predict_health_risk_def Let_def split: sum.splits if_splits dest: py_max_Max)

subsection \<open>Evaluation at the concrete inputs\<close>

lemma load_demo_model: "load_existing_model demo_files ''Vashi_model.h5'' = Some demo_model"
  by (simp add: load_existing_model_def demo_files_def)

lemma scaler_fit_eight:
  "scaler_fit [10, 20, 30, 40, 50, 60, 70, 80] =
     Inr \<lparr>data_min = 10, data_max = 80, scale_attr = 1 / 70, min_attr = - (1 / 7)\<rparr>"
  by (simp add: scaler_fit_def np_min_def np_max_def handle_zeros_in_scale_def float_eps_def)

lemma scaler_fit_two:
  "scaler_fit [10, 20] =
     Inr \<lparr>data_min = 10, data_max = 20, scale_attr = 1 / 10, min_attr = - 1\<rparr>"
  by (simp add: scaler_fit_def np_min_def np_max_def handle_zeros_in_scale_def float_eps_def)


lemma scaler_fit_two_hundred:
  "scaler_fit [0, 200] =
     Inr \<lparr>data_min = 0, data_max = 200, scale_attr = 1 / 200, min_attr = 0\<rparr>"
  by (simp add: scaler_fit_def np_min_def np_max_def handle_zeros_in_scale_def float_eps_def)

lemma forecast_eight:
  "forecast_next_hours demo_keras demo_files [10, 20, 30, 40, 50, 60, 70, 80]
     ''Vashi_model.h5'' 2 3 50 = (Inr [115 / 2, 685 / 12], demo_files)"
  by (simp add: forecast_cached[OF load_demo_model scaler_fit_eight] forecast_from_def
        last_sequence_def scale_value_def unscale_value_def demo_model_def
        scaler_inverse_transform_def numeral_2_eq_2 numeral_3_eq_3)

lemma create_sequences_eight:
  "create_sequences
     (map (scale_value \<lparr>data_min = 10, data_max = 80, scale_attr = 1 / 70, min_attr = - (1 / 7)\<rparr>)
        [10, 20, 30, 40, 50, 60, 70, 80]) 3
   = ([[0, 1 / 7, 2 / 7], [1 / 7, 2 / 7, 3 / 7], [2 / 7, 3 / 7, 4 / 7], [3 / 7, 4 / 7, 5 / 7],
       [4 / 7, 5 / 7, 6 / 7]],
      [3 / 7, 4 / 7, 5 / 7, 6 / 7, 1])"
  by (simp add: create_sequences_def scale_value_def upt_rec numeral_2_eq_2 numeral_3_eq_3)


lemma train_on_hundred:
  "train_model demo_keras Map.empty [0, 50, 100, 50] ''Vashi_model.h5'' 1 100
     = (Inr (demo_model,
             \<lparr>data_min = 0, data_max = 100, scale_attr = 1 / 100, min_attr = 0\<rparr>,
             demo_history),
        [''Vashi_model.keras'' \<mapsto> demo_model])"
  by (simp add: train_model_def scaler_fit_transform_def scaler_fit_def scaler_transform_def
        np_min_def np_max_def handle_zeros_in_scale_def float_eps_def create_sequences_def
        demo_keras_def split_index_def scale_value_def upt_rec)

lemma demo_transform_polluted:
  "standard_transform demo_standard_scaler (input_features polluted p h)
     = Inr [3, 5 / 2, 25 / 12, 5 / 4, 5 / 4, - (4 / 5), - (4 / 5), - 2, (h - 6) / 3,
            ((if p = ''children_elderly'' then 1 else 0) - 1 / 3) / (1 / 2),
            ((if p = ''outdoor_workers'' then 1 else 0) - 1 / 3) / (1 / 2),
            ((if p = ''general_public'' then 1 else 0) - 1 / 3) / (1 / 2)]"
  by (simp add: standard_transform_def demo_standard_scaler_def input_features_def polluted_def
        dict_get_def)

lemma demo_predict_polluted:
  "predict_risk demo_classifier polluted p h
     = Inr \<lparr>risk_category = ''Hazardous'',
            risk_probabilities =
              [(''Low'', 7 / 10), (''Moderate'', 1 / 10), (''High'', 1 / 10), (''Hazardous'', 1 / 10)],
            shap_values = [],
            features = input_features polluted p h,
            feature_names = []\<rparr>"
  by (simp add: predict_risk_def demo_classifier_def HealthRiskClassifier_init_def
        demo_transform_polluted demo_proba_def forest_predict_def sorted_labels_def py_dict_def
        Let_def)

lemma demo_route_ok:
  "api_predict_health_risk demo_classifier
     \<lparr>req_fields = polluted, req_persona = Some ''children_elderly'',
      req_exposure_duration = Some 6\<rparr>
   = Status_200
       \<lparr>body_category = ''Hazardous'', body_confidence = 7 / 10,
        body_probabilities =
          [(''Low'', 7 / 10), (''Moderate'', 1 / 10), (''High'', 1 / 10), (''Hazardous'', 1 / 10)],
        body_explanation =
          ''Risk classified as Hazardous based on current environmental conditions and children elderly profile.'',
        body_health_advice =
          ''Children and elderly should remain indoors. Keep all outdoor activities to an absolute minimum.'',
        body_persona = ''children_elderly'', body_exposure_duration = 6\<rparr>"
  by (simp add: api_predict_health_risk_def request_forecast_data_def request_persona_def
        request_exposure_def known_personas_def polluted_def dict_get_def predict_risk_def
        demo_classifier_def HealthRiskClassifier_init_def input_features_def
        standard_transform_def demo_standard_scaler_def demo_proba_def forest_predict_def
        sorted_labels_def py_dict_def generate_health_advice_def advice_templates_def
        py_max_def dict_values_def Let_def)

lemma demo_health_risk:
  "predict_health_risk demo_dir HealthRiskModel_init example_forecast
     = (Inr \<lparr>hr_risk_category = ''Low'', hr_confidence = 2 / 5, hr_color = ''#00e400'',
             hr_risk_score = 2 / 5,
             hr_all_probabilities =
               [(''Hazardous'', 1 / 10), (''High'', 1 / 10), (''Low'', 2 / 5), (''Moderate'', 2 / 5)]\<rparr>,
        HealthRiskModel_init
          \<lparr>hrm_model := Some \<lparr>classes_attr = [0, 1, 2, 3], predict_proba = tied_proba\<rparr>,
           hrm_label_encoder := Some sorted_labels,
           hrm_scaler := Some demo_risk_scaler\<rparr>)"
  by (simp add: predict_health_risk_def load_model_def demo_dir_def HealthRiskModel_init_def
        predict_loaded_def input_row_def example_forecast_def calculate_who_exceedance_ratio_def
        standard_transform_def demo_risk_scaler_def tied_proba_def forest_predict_def
        risk_summary_def inverse_transform_label_def sorted_labels_def py_max_def
        color_mapping_def py_dict_def Let_def del: not_None_eq)

lemma spec_argmax_tied:
  "spec_argmax_severity
     [(''Hazardous'', 1 / 10), (''High'', 1 / 10), (''Low'', 2 / 5), (''Moderate'', 2 / 5)]
   = Some ''Moderate''"
  by (simp add: spec_argmax_severity_def severity_order_def dict_values_def)

section \<open>The claims\<close>

subsection \<open>Forecasting\<close>

text \<open>
  Claim C2, as the code has it: when a saved model is loaded, the series is not empty and
  the window size is positive, a forecast for \<open>hours \<ge> 1\<close> (so for every horizon from 1
  to 24) returns a list of exactly \<open>hours\<close> predictions and leaves the saved models as
  they were.
\<close>

theorem forecast_length:
  assumes "load_existing_model files model_path = Some model"
    and "df \<noteq> []" and "0 < window_size" and "1 \<le> hours"
  shows "\<exists>predictions.
           forecast_next_hours keras files df model_path hours window_size epochs
             = (Inr predictions, files)
           \<and> length predictions = hours"
proof -
  from scaler_fit_total[OF assms(2)] obtain sc where sc: "scaler_fit df = Inr sc" by blast
  have "map (scale_value sc) df \<noteq> []" using assms(2) by simp
  from forecast_from_length[OF this assms(3), of hours model sc] assms(4)
  obtain ps where "forecast_from model sc (map (scale_value sc) df) hours window_size = Inr ps"
    "length ps = hours" by auto
  then show ?thesis using forecast_cached[OF assms(1) sc] by simp
qed

text \<open>The saved network forecasts two hours from eight observations with a window of
  three.\<close>

theorem forecast_length_witness:
  "load_existing_model demo_files ''Vashi_model.h5'' = Some demo_model
   \<and> [10, 20, 30, 40, 50, 60, 70, 80] \<noteq> ([] :: real list) \<and> (0::nat) < 3 \<and> (1::nat) \<le> 2
   \<and> (\<exists>predictions.
         forecast_next_hours demo_keras demo_files [10, 20, 30, 40, 50, 60, 70, 80]
           ''Vashi_model.h5'' 2 3 50 = (Inr predictions, demo_files)
         \<and> length predictions = 2)"
proof -
  have h2: "[10, 20, 30, 40, 50, 60, 70, 80] \<noteq> ([] :: real list)" by simp
  have h3: "(0::nat) < 3" and h4: "(1::nat) \<le> 2" by simp_all
  from forecast_length[OF load_demo_model h2 h3 h4, of demo_keras 50]
  show ?thesis using load_demo_model by simp
qed

text \<open>With a saved model and an empty series the call raises for a horizon of 12: the
  scaler cannot be fitted on no sample.\<close>

theorem forecast_empty_series_counterexample:
  "load_existing_model demo_files ''Vashi_model.h5'' = Some demo_model
   \<and> forecast_next_hours demo_keras demo_files [] ''Vashi_model.h5'' 12 48 50
       = (Inl ValueError, demo_files)"
  by (simp add: load_demo_model forecast_empty_series)

text \<open>
  Claim C3: in a forecast that returns, the network is the loaded one or, when none is
  saved, the one just trained; the loop starts from the window
  \<^verbatim>\<open>last_seq\<close> taken from the scaled series and never looks at the series again. The
  window of step \<open>k\<close> is \<open>drop k (last_seq @ take k ps)\<close>, made of the initial window and
  the predictions before \<open>k\<close> only; prediction \<open>k\<close> is the network applied to it; and
  prediction \<open>k + 1\<close> is the network applied to that window without its oldest element
  and with prediction \<open>k\<close> appended.
\<close>

theorem iterative_feedback:
  assumes "forecast_next_hours keras files df model_path hours window_size epochs
             = (Inr predictions, files')"
    and "Suc k < hours"
  shows "\<exists>model scaler last_seq ps.
           (load_existing_model files model_path = Some model
              \<or> load_existing_model files model_path = None
                \<and> (\<exists>history. train_model keras files df model_path window_size epochs
                                = (Inr (model, scaler, history), files')))
           \<and> scaler_fit df = Inr scaler
           \<and> last_sequence (map (scale_value scaler) df) window_size = Inr last_seq
           \<and> predict_steps model window_size hours last_seq [] = Inr ps
           \<and> predictions = map (unscale_value scaler) ps
           \<and> length ps = hours
           \<and> length (drop k (last_seq @ take k ps)) = window_size
           \<and> ps ! k = model (drop k (last_seq @ take k ps))
           \<and> ps ! Suc k = model (tl (drop k (last_seq @ take k ps)) @ [ps ! k])"
proof -
  from forecast_next_hours_from[OF assms(1)] obtain model scaler where
    sc: "scaler_fit df = Inr scaler"
    and ff: "forecast_from model scaler (map (scale_value scaler) df) hours window_size
               = Inr predictions"
    and origin: "load_existing_model files model_path = Some model
              \<or> load_existing_model files model_path = None
                \<and> (\<exists>history. train_model keras files df model_path window_size epochs
                                = (Inr (model, scaler, history), files'))"
    by blast
  let ?scaled = "map (scale_value scaler) df"
  from ff obtain last_seq where w: "last_sequence ?scaled window_size = Inr last_seq"
    by (auto simp: forecast_from_def split: sum.splits)
  with ff obtain ps where ps: "predict_steps model window_size hours last_seq [] = Inr ps"
    and out: "scaler_inverse_transform scaler ps = Inr predictions"
    by (auto simp: forecast_from_def split: sum.splits)
  from assms(2) obtain n where n: "hours = Suc (Suc n)"
    by (cases hours; cases "hours - 1") auto
  have ws: "0 < window_size"
  proof (rule ccontr)
    assume "\<not> 0 < window_size"
    then have "window_size = 0" by simp
    with ps n predict_steps_zero_window[of model n last_seq "[]"] show False
      by (simp del: predict_steps.simps)
  qed
  from ps n have len: "length last_seq = window_size"
    using predict_steps_window_length by blast
  from predict_steps_acc[OF len ws, of model hours "[]"] ps
  have lps: "length ps = hours"
    and nth: "\<forall>j<hours. ps ! j = model (drop j (last_seq @ take j ps))" by auto
  from len ws have wne: "last_seq \<noteq> []" by auto
  have k: "k < length ps" using lps assms(2) by simp
  have "ps ! Suc k = model (drop (Suc k) (last_seq @ take (Suc k) ps))"
    using nth assms(2) by blast
  then have next_step: "ps ! Suc k = model (tl (drop k (last_seq @ take k ps)) @ [ps ! k])"
    using slide_window[OF k wne] by simp
  have this_step: "ps ! k = model (drop k (last_seq @ take k ps))"
    using nth assms(2) by simp
  have wlen: "length (drop k (last_seq @ take k ps)) = window_size"
    using len k by (simp add: min_def)
  from out have "predictions = map (unscale_value scaler) ps"
    by (auto simp: scaler_inverse_transform_def split: if_splits)
  with origin sc w ps lps wlen this_step next_step show ?thesis by blast
qed

text \<open>The two-hour forecast from eight observations: the second prediction comes from
  the first window without its oldest value and with the first prediction appended.\<close>

theorem iterative_feedback_witness:
  "forecast_next_hours demo_keras demo_files [10, 20, 30, 40, 50, 60, 70, 80]
     ''Vashi_model.h5'' 2 3 50 = (Inr [115 / 2, 685 / 12], demo_files)
   \<and> Suc 0 < 2
   \<and> (\<exists>model scaler last_seq ps.
         (load_existing_model demo_files ''Vashi_model.h5'' = Some model
            \<or> load_existing_model demo_files ''Vashi_model.h5'' = None
              \<and> (\<exists>history. train_model demo_keras demo_files
                                [10, 20, 30, 40, 50, 60, 70, 80] ''Vashi_model.h5'' 3 50
                              = (Inr (model, scaler, history), demo_files)))
         \<and> scaler_fit [10, 20, 30, 40, 50, 60, 70, 80] = Inr scaler
         \<and> last_sequence (map (scale_value scaler) [10, 20, 30, 40, 50, 60, 70, 80]) 3
             = Inr last_seq
         \<and> predict_steps model 3 2 last_seq [] = Inr ps
         \<and> [115 / 2, 685 / 12] = map (unscale_value scaler) ps
         \<and> length ps = 2
         \<and> length (drop 0 (last_seq @ take 0 ps)) = 3
         \<and> ps ! 0 = model (drop 0 (last_seq @ take 0 ps))
         \<and> ps ! Suc 0 = model (tl (drop 0 (last_seq @ take 0 ps)) @ [ps ! 0]))"
proof -
  have h2: "Suc 0 < 2" by simp
  note fed = iterative_feedback[OF forecast_eight h2]
  show ?thesis by (intro conjI forecast_eight h2 fed)
qed

text \<open>
  Claim C4, as the code has it: for a non-empty series shorter than the window, with a
  saved model loaded, the input window is the scaled series left-padded with copies of
  its first scaled value, the loop runs on that window, and the forecast returns
  \<open>hours\<close> predictions for \<open>hours \<ge> 1\<close>.
\<close>

theorem short_series_padding:
  assumes "load_existing_model files model_path = Some model"
    and "scaler_fit df = Inr scaler"
    and "length df < window_size" and "1 \<le> hours"
  shows "\<exists>ps.
           last_sequence (map (scale_value scaler) df) window_size
             = Inr (replicate (window_size - length df) (scale_value scaler (hd df))
                      @ map (scale_value scaler) df)
           \<and> predict_steps model window_size hours
                (replicate (window_size - length df) (scale_value scaler (hd df))
                   @ map (scale_value scaler) df) [] = Inr ps
           \<and> length ps = hours
           \<and> forecast_next_hours keras files df model_path hours window_size epochs
               = (Inr (map (unscale_value scaler) ps), files)"
proof -
  let ?scaled = "map (scale_value scaler) df"
  let ?w = "replicate (window_size - length df) (scale_value scaler (hd df)) @ ?scaled"
  from scaler_fit_nonempty[OF assms(2)] obtain v vs where df: "df = v # vs" by (cases df) auto
  have w: "last_sequence ?scaled window_size = Inr ?w"
    using assms(3) by (simp add: last_sequence_def df)
  have len: "length ?w = window_size" using assms(3) by simp
  have ws: "0 < window_size" using assms(3) by simp
  from predict_steps_acc[OF len ws, of model hours "[]"] obtain ps where
    ps: "predict_steps model window_size hours ?w [] = Inr ps" "length ps = hours" by auto
  with assms(4) have "ps \<noteq> []" by auto
  with w ps have "forecast_from model scaler ?scaled hours window_size
                    = Inr (map (unscale_value scaler) ps)"
    by (simp add: forecast_from_def scaler_inverse_transform_def)
  with forecast_cached[OF assms(1,2)] w ps show ?thesis by auto
qed

text \<open>Two observations and a window of three: the window is the first scaled value once,
  then the two scaled values.\<close>

theorem short_series_padding_witness:
  "load_existing_model demo_files ''Vashi_model.h5'' = Some demo_model
   \<and> scaler_fit [10, 20]
       = Inr \<lparr>data_min = 10, data_max = 20, scale_attr = 1 / 10, min_attr = - 1\<rparr>
   \<and> length [10, 20 :: real] < 3 \<and> (1::nat) \<le> 2
   \<and> last_sequence (map (scale_value \<lparr>data_min = 10, data_max = 20, scale_attr = 1 / 10, min_attr = - 1\<rparr>) [10, 20]) 3
       = Inr [0, 0, 1]
   \<and> forecast_next_hours demo_keras demo_files [10, 20] ''Vashi_model.h5'' 2 3 50
       = (Inr [85 / 6, 535 / 36], demo_files)"
proof -
  have h3: "length [10, 20 :: real] < 3" and h4: "(1::nat) \<le> 2" by simp_all
  from short_series_padding[OF load_demo_model scaler_fit_two h3 h4, of demo_keras 50]
  show ?thesis using load_demo_model scaler_fit_two
    by (auto simp: scale_value_def unscale_value_def demo_model_def numeral_2_eq_2 numeral_3_eq_3)
qed

text \<open>The empty series is shorter than a window of three, and the call raises on it.\<close>

theorem short_series_empty_counterexample:
  "length ([] :: real list) < 3
   \<and> load_existing_model demo_files ''Vashi_model.h5'' = Some demo_model
   \<and> forecast_next_hours demo_keras demo_files [] ''Vashi_model.h5'' 2 3 50
       = (Inl ValueError, demo_files)"
  by (simp add: load_demo_model forecast_empty_series)

text \<open>
  Claim C7: for a scaler fitted on any non-empty series, inverse scaling undoes scaling,
  exactly in real arithmetic and for every value, in particular for every value between
  the fitted minimum and maximum.
\<close>

theorem scaling_round_trip:
  assumes "scaler_fit series = Inr scaler"
  shows "unscale_value scaler (scale_value scaler v) = v"
proof -
  from scaler_fit_scale_pos[OF assms] have "scale_attr scaler \<noteq> 0" by simp
  then show ?thesis by (simp add: unscale_value_def scale_value_def)
qed

text \<open>The scaler fitted on the eight observations sends 45 to one half and back.\<close>

theorem scaling_round_trip_witness:
  "scaler_fit [10, 20, 30, 40, 50, 60, 70, 80]
     = Inr \<lparr>data_min = 10, data_max = 80, scale_attr = 1 / 70, min_attr = - (1 / 7)\<rparr>
   \<and> scale_value \<lparr>data_min = 10, data_max = 80, scale_attr = 1 / 70, min_attr = - (1 / 7)\<rparr> 45 = 1 / 2
   \<and> unscale_value \<lparr>data_min = 10, data_max = 80, scale_attr = 1 / 70, min_attr = - (1 / 7)\<rparr>
        (scale_value \<lparr>data_min = 10, data_max = 80, scale_attr = 1 / 70, min_attr = - (1 / 7)\<rparr> 45) = 45"
proof -
  from scaling_round_trip[OF scaler_fit_eight, of 45]
  show ?thesis using scaler_fit_eight by (simp add: scale_value_def)
qed

subsection \<open>Training\<close>

text \<open>
  Claim C5: for a series with more than \<open>window_size\<close> observations, training builds
  \<open>len(series) - window_size\<close> pairs; pair \<open>i\<close> is the scaled values at positions
  \<open>i, \<dots>, i + window_size - 1\<close> with the scaled value at position \<open>i + window_size\<close>;
  the fit receives the first \<open>\<lfloor>0.85 n\<rfloor>\<close> pairs as training data and the remaining
  pairs as validation data, in their order in the series. What training returns is what
  that call of the fit returns, unless the fit or the save that follows it raises.
\<close>

theorem training_pairs_and_split:
  assumes "scaler_fit df = Inr scaler"
    and "create_sequences (map (scale_value scaler) df) window_size = (X, y)"
    and "i < length df - window_size"
  shows "int (length X) = int (length df) - int window_size
         \<and> length y = length X
         \<and> X ! i = map (scale_value scaler) (take window_size (drop i df))
         \<and> length (X ! i) = window_size
         \<and> y ! i = scale_value scaler (df ! (i + window_size))
         \<and> fst (train_model keras files df model_path window_size epochs)
             = (case model_fit keras
                       (take (85 * length X div 100) X) (take (85 * length X div 100) y)
                       (drop (85 * length X div 100) X) (drop (85 * length X div 100) y) epochs of
                  Inl e \<Rightarrow> Inl e
                | Inr (m, h) \<Rightarrow>
                    (case model_save keras (replace_h5 model_path) of
                       Some e \<Rightarrow> Inl e
                     | None \<Rightarrow> Inr (m, scaler, h)))
         \<and> take (85 * length X div 100) X @ drop (85 * length X div 100) X = X
         \<and> take (85 * length X div 100) y @ drop (85 * length X div 100) y = y"
proof -
  from create_sequences_length[OF assms(2)]
  have len: "length X = length df - window_size" "length y = length df - window_size" by simp_all
  have c1: "int (length X) = int (length df) - int window_size" using len assms(3) by simp
  have c3: "X ! i = map (scale_value scaler) (take window_size (drop i df))"
    using create_sequences_nth[OF assms(2,3)] by simp
  have c4: "length (X ! i) = window_size" using assms(3) by (simp add: c3)
  have c5: "y ! i = scale_value scaler (df ! (i + window_size))"
    using create_sequences_nth[OF assms(2,3)] by simp
  have c6: "fst (train_model keras files df model_path window_size epochs)
             = (case model_fit keras
                       (take (85 * length X div 100) X) (take (85 * length X div 100) y)
                       (drop (85 * length X div 100) X) (drop (85 * length X div 100) y) epochs of
                  Inl e \<Rightarrow> Inl e
                | Inr (m, h) \<Rightarrow>
                    (case model_save keras (replace_h5 model_path) of
                       Some e \<Rightarrow> Inl e
                     | None \<Rightarrow> Inr (m, scaler, h)))"
    by (simp add: train_model_fit[OF assms(1,2)] split_index_def
          split: sum.splits option.splits)
  show ?thesis using c1 len c3 c4 c5 c6 by simp
qed

text \<open>Eight observations and a window of three give five pairs; the first four are the
  training segment, and the last pair is the last three scaled values before the last
  one. The fit and the save return, and so does the training.\<close>

theorem training_pairs_and_split_witness:
  "scaler_fit [10, 20, 30, 40, 50, 60, 70, 80]
     = Inr \<lparr>data_min = 10, data_max = 80, scale_attr = 1 / 70, min_attr = - (1 / 7)\<rparr>
   \<and> (4::nat) < length [10, 20, 30, 40, 50, 60, 70, 80 :: real] - 3
   \<and> [[0, 1 / 7, 2 / 7], [1 / 7, 2 / 7, 3 / 7], [2 / 7, 3 / 7, 4 / 7], [3 / 7, 4 / 7, 5 / 7],
       [4 / 7, 5 / 7, 6 / 7 :: real]] ! 4 = [4 / 7, 5 / 7, 6 / 7]
   \<and> model_save demo_keras (replace_h5 ''Vashi_model.h5'') = None
   \<and> fst (train_model demo_keras Map.empty [10, 20, 30, 40, 50, 60, 70, 80]
            ''Vashi_model.h5'' 3 100)
       = Inr (demo_model,
              \<lparr>data_min = 10, data_max = 80, scale_attr = 1 / 70, min_attr = - (1 / 7)\<rparr>,
              demo_history)"
proof -
  have h3: "(4::nat) < length [10, 20, 30, 40, 50, 60, 70, 80 :: real] - 3" by simp
  from training_pairs_and_split[OF scaler_fit_eight create_sequences_eight h3,
         of demo_keras Map.empty "''Vashi_model.h5''" 100]
  show ?thesis using scaler_fit_eight h3
    by (simp add: demo_keras_def)
qed




text \<open>
  Claim C9, as the code has it: training fits its scaler on the training series and
  saves the network only. A later forecast call, which loads that network, fits a new
  scaler on the series it is given and uses it both to scale the window and to invert
  the predictions; the scaler of the training is not consulted.
\<close>

theorem scaler_refitted_at_forecast:
  assumes "train_model keras files df_train model_path window_size epochs
             = (Inr (model, scaler_train, history), files')"
    and "scaler_fit df = Inr scaler"
  shows "scaler_fit df_train = Inr scaler_train
         \<and> files' = files(replace_h5 model_path \<mapsto> model)
         \<and> forecast_next_hours keras' files' df model_path hours window_size' epochs'
             = (forecast_from model scaler (map (scale_value scaler) df) hours window_size', files')"
proof -
  from train_model_result[OF assms(1)]
  have t: "scaler_fit df_train = Inr scaler_train" "files' = files(replace_h5 model_path \<mapsto> model)"
    by simp_all
  have "load_existing_model files' model_path = Some model"
    unfolding t(2) by (rule load_after_save)
  from forecast_cached[OF this assms(2)] t show ?thesis by simp
qed

text \<open>Training on \<open>[0, 50, 100, 50]\<close>, then a forecast on \<open>[0, 200]\<close> with the
  saved network.\<close>

theorem scaler_refitted_at_forecast_witness:
  "train_model demo_keras Map.empty [0, 50, 100, 50] ''Vashi_model.h5'' 1 100
     = (Inr (demo_model,
             \<lparr>data_min = 0, data_max = 100, scale_attr = 1 / 100, min_attr = 0\<rparr>,
             demo_history),
        [''Vashi_model.keras'' \<mapsto> demo_model])
   \<and> scaler_fit [0, 200]
       = Inr \<lparr>data_min = 0, data_max = 200, scale_attr = 1 / 200, min_attr = 0\<rparr>
   \<and> forecast_next_hours demo_keras [''Vashi_model.keras'' \<mapsto> demo_model] [0, 200]
        ''Vashi_model.h5'' 1 1 50
       = (Inr [150], [''Vashi_model.keras'' \<mapsto> demo_model])"
proof -
  from scaler_refitted_at_forecast[OF train_on_hundred scaler_fit_two_hundred,
         of demo_keras 1 1 50]
  show ?thesis using train_on_hundred scaler_fit_two_hundred
    by (simp add: forecast_from_def last_sequence_def scale_value_def unscale_value_def
          demo_model_def scaler_inverse_transform_def)
qed

text \<open>
  After training on \<open>[0, 50, 100, 50]\<close> the forecast on \<open>[0, 200]\<close> loads the saved
  network and returns 150, the value under the scaler of \<open>[0, 200]\<close>; under the scaler
  fitted at training the same network gives 125.
\<close>

theorem cached_forecast_scaler_counterexample:
  "train_model demo_keras Map.empty [0, 50, 100, 50] ''Vashi_model.h5'' 1 100
     = (Inr (demo_model,
             \<lparr>data_min = 0, data_max = 100, scale_attr = 1 / 100, min_attr = 0\<rparr>,
             demo_history),
        [''Vashi_model.keras'' \<mapsto> demo_model])
   \<and> forecast_next_hours demo_keras [''Vashi_model.keras'' \<mapsto> demo_model] [0, 200]
        ''Vashi_model.h5'' 1 1 100
       = (Inr [150], [''Vashi_model.keras'' \<mapsto> demo_model])
   \<and> forecast_from demo_model
        \<lparr>data_min = 0, data_max = 100, scale_attr = 1 / 100, min_attr = 0\<rparr>
        (map (scale_value \<lparr>data_min = 0, data_max = 100, scale_attr = 1 / 100, min_attr = 0\<rparr>)
           [0, 200]) 1 1
       = Inr [125]"
proof -
  have "load_existing_model [''Vashi_model.keras'' \<mapsto> demo_model] ''Vashi_model.h5''
          = Some demo_model"
    by (simp add: load_existing_model_def)
  from forecast_cached[OF this scaler_fit_two_hundred, of demo_keras 1 1 100]
  show ?thesis using train_on_hundred
    by (simp add: forecast_from_def last_sequence_def scale_value_def unscale_value_def
          demo_model_def scaler_inverse_transform_def)
qed

subsection \<open>Risk classification\<close>

text \<open>
  Claim C1, as the code has it, in three parts.

  For a result of \<^verbatim>\<open>predict_health_risk\<close>, when the encoder's labels are distinct,
  the forest's classes are the encoded labels \<open>0, \<dots>, n - 1\<close>, and every probability
  vector of the forest has one entry per label and sums to 1 within \<open>10\<^sup>-\<^sup>6\<close>: the
  values of \<^verbatim>\<open>all_probabilities\<close> sum to 1 within \<open>10\<^sup>-\<^sup>6\<close>; its keys are the
  encoder's labels in their order; \<^verbatim>\<open>confidence\<close> is the maximum of the values;
  \<^verbatim>\<open>risk_category\<close> is the label of the first maximal value in that order, so that
  a tie goes to the label that comes first in the encoder's sorted order and every
  earlier value is strictly smaller.

  For a result of \<^verbatim>\<open>predict_risk\<close>, when the classifier's labels are distinct and
  every probability vector of its forest has at most as many entries as there are labels
  and sums to 1 within \<open>10\<^sup>-\<^sup>6\<close>: the values of \<^verbatim>\<open>risk_probabilities\<close> sum to 1
  within \<open>10\<^sup>-\<^sup>6\<close>. (A forest with more classes than labels loses the entries beyond
  the last label.)

  For every 200 answer of the \<^verbatim>\<open>/health-risk\<close> route: the confidence it reports is
  the maximum of the probabilities it reports.
\<close>

theorem risk_result_invariants:
  "(predict_health_risk dir self forecast_data = (Inr r, self')
      \<and> hrm_model self' = Some model \<and> hrm_label_encoder self' = Some classes
      \<and> distinct classes \<and> classes_attr model = [0 ..< length classes]
      \<and> (\<forall>x. length (predict_proba model x) = length classes)
      \<and> (\<forall>x. \<bar>sum_list (predict_proba model x) - 1\<bar> \<le> 1 / 10 ^ 6)
    \<longrightarrow> \<bar>sum_list (dict_values (hr_all_probabilities r)) - 1\<bar> \<le> 1 / 10 ^ 6
        \<and> map fst (hr_all_probabilities r) = classes
        \<and> hr_confidence r = Max (set (dict_values (hr_all_probabilities r)))
        \<and> hr_risk_category r = classes ! np_argmax (dict_values (hr_all_probabilities r))
        \<and> map_of (hr_all_probabilities r) (hr_risk_category r) = Some (hr_confidence r)
        \<and> (j < np_argmax (dict_values (hr_all_probabilities r))
             \<longrightarrow> dict_values (hr_all_probabilities r) ! j < hr_confidence r))
   \<and> (predict_risk classifier features_in persona_type exposure_duration = Inr rr
        \<and> hrc_model classifier = Some forest \<and> distinct (hrc_risk_categories classifier)
        \<and> (\<forall>x. length (predict_proba forest x) \<le> length (hrc_risk_categories classifier))
        \<and> (\<forall>x. \<bar>sum_list (predict_proba forest x) - 1\<bar> \<le> 1 / 10 ^ 6)
      \<longrightarrow> \<bar>sum_list (dict_values (risk_probabilities rr)) - 1\<bar> \<le> 1 / 10 ^ 6)
   \<and> (api_predict_health_risk classifier data = Status_200 body
      \<longrightarrow> body_confidence body = Max (set (dict_values (body_probabilities body))))"
  using health_risk_model_result[of dir self forecast_data r self' model classes j]
    predict_risk_sum[of classifier features_in persona_type exposure_duration rr forest]
    api_confidence[of classifier data body]
  by blast

text \<open>The artifacts on disk with the example forecast of the module, and the fitted
  classifier with the polluted reading.\<close>

theorem risk_result_invariants_witness:
  "predict_health_risk demo_dir HealthRiskModel_init example_forecast
     = (Inr \<lparr>hr_risk_category = ''Low'', hr_confidence = 2 / 5, hr_color = ''#00e400'',
             hr_risk_score = 2 / 5,
             hr_all_probabilities =
               [(''Hazardous'', 1 / 10), (''High'', 1 / 10), (''Low'', 2 / 5), (''Moderate'', 2 / 5)]\<rparr>,
        HealthRiskModel_init
          \<lparr>hrm_model := Some \<lparr>classes_attr = [0, 1, 2, 3], predict_proba = tied_proba\<rparr>,
           hrm_label_encoder := Some sorted_labels,
           hrm_scaler := Some demo_risk_scaler\<rparr>)
   \<and> distinct sorted_labels \<and> [0, 1, 2, 3] = [0 ..< length sorted_labels]
   \<and> \<bar>sum_list (dict_values
         [(''Hazardous'', 1 / 10), (''High'', 1 / 10), (''Low'', 2 / 5), (''Moderate'', 2 / 5 :: real)]) - 1\<bar>
       \<le> 1 / 10 ^ 6
   \<and> (2 / 5 :: real) = Max (set (dict_values
         [(''Hazardous'', 1 / 10), (''High'', 1 / 10), (''Low'', 2 / 5), (''Moderate'', 2 / 5)]))
   \<and> ''Low'' = sorted_labels ! np_argmax (dict_values
         [(''Hazardous'', 1 / 10), (''High'', 1 / 10), (''Low'', 2 / 5), (''Moderate'', 2 / 5 :: real)])
   \<and> np_argmax (dict_values
         [(''Hazardous'', 1 / 10), (''High'', 1 / 10), (''Low'', 2 / 5), (''Moderate'', 2 / 5 :: real)]) = 2
   \<and> predict_risk demo_classifier polluted ''children_elderly'' 6
       = Inr \<lparr>risk_category = ''Hazardous'',
              risk_probabilities =
                [(''Low'', 7 / 10), (''Moderate'', 1 / 10), (''High'', 1 / 10), (''Hazardous'', 1 / 10)],
              shap_values = [],
              features = [250, 150, 200, 35, 85, 1, 1005, 2, 6, 1, 0, 0],
              feature_names = []\<rparr>
   \<and> distinct (hrc_risk_categories demo_classifier)
   \<and> \<bar>sum_list (dict_values
         [(''Low'', 7 / 10), (''Moderate'', 1 / 10), (''High'', 1 / 10), (''Hazardous'', 1 / 10 :: real)]) - 1\<bar>
       \<le> 1 / 10 ^ 6
   \<and> (7 / 10 :: real) = Max (set (dict_values
         [(''Low'', 7 / 10), (''Moderate'', 1 / 10), (''High'', 1 / 10), (''Hazardous'', 1 / 10)]))"
proof -
  let ?loaded = "HealthRiskModel_init
          \<lparr>hrm_model := Some \<lparr>classes_attr = [0, 1, 2, 3], predict_proba = tied_proba\<rparr>,
           hrm_label_encoder := Some sorted_labels,
           hrm_scaler := Some demo_risk_scaler\<rparr>"
  let ?forest = "\<lparr>classes_attr = [0, 1, 2, 3 :: nat], predict_proba = tied_proba\<rparr>"
  let ?trees = "\<lparr>classes_attr = sorted_labels, predict_proba = demo_proba\<rparr>"
  let ?r = "\<lparr>hr_risk_category = ''Low'', hr_confidence = 2 / 5, hr_color = ''#00e400'',
             hr_risk_score = 2 / 5,
             hr_all_probabilities =
               [(''Hazardous'', 1 / 10), (''High'', 1 / 10), (''Low'', 2 / 5), (''Moderate'', 2 / 5)]\<rparr>"
  let ?rr = "\<lparr>risk_category = ''Hazardous'',
              risk_probabilities =
                [(''Low'', 7 / 10), (''Moderate'', 1 / 10), (''High'', 1 / 10), (''Hazardous'', 1 / 10)],
              shap_values = [],
              features = [250, 150, 200, 35, 85, 1, 1005, 2, 6, 1, 0, 0],
              feature_names = []\<rparr>"
  let ?data = "\<lparr>req_fields = polluted, req_persona = Some ''children_elderly'',
                req_exposure_duration = Some 6\<rparr>"
  let ?body = "\<lparr>body_category = ''Hazardous'', body_confidence = 7 / 10,
        body_probabilities =
          [(''Low'', 7 / 10), (''Moderate'', 1 / 10), (''High'', 1 / 10), (''Hazardous'', 1 / 10)],
        body_explanation =
          ''Risk classified as Hazardous based on current environmental conditions and children elderly profile.'',
        body_health_advice =
          ''Children and elderly should remain indoors. Keep all outdoor activities to an absolute minimum.'',
        body_persona = ''children_elderly'', body_exposure_duration = 6\<rparr>"
  have h1: "predict_health_risk demo_dir HealthRiskModel_init example_forecast = (Inr ?r, ?loaded)"
    by (rule demo_health_risk)
  have h2: "hrm_model ?loaded = Some ?forest" by simp
  have h3: "hrm_label_encoder ?loaded = Some sorted_labels" by simp
  have h4: "distinct sorted_labels" by (simp add: sorted_labels_def)
  have h5: "classes_attr ?forest = [0 ..< length sorted_labels]"
    by (simp add: sorted_labels_def upt_rec)
  have h6: "\<forall>x. length (predict_proba ?forest x) = length sorted_labels"
    by (simp add: sorted_labels_def tied_proba_def)
  have h7: "\<forall>x. \<bar>sum_list (predict_proba ?forest x) - 1\<bar> \<le> 1 / 10 ^ 6"
    by (simp add: tied_proba_def)
  have g1: "predict_risk demo_classifier polluted ''children_elderly'' 6 = Inr ?rr"
    by (simp only: demo_predict_polluted) (simp add: input_features_def polluted_def dict_get_def)
  have g2: "hrc_model demo_classifier = Some ?trees"
    by (simp add: demo_classifier_def)
  have g3: "distinct (hrc_risk_categories demo_classifier)"
    by (simp add: demo_classifier_def HealthRiskClassifier_init_def)
  have g4: "\<forall>x. length (predict_proba ?trees x) \<le> length (hrc_risk_categories demo_classifier)"
    by (simp add: demo_classifier_def HealthRiskClassifier_init_def demo_proba_def)
  have g5: "\<forall>x. \<bar>sum_list (predict_proba ?trees x) - 1\<bar> \<le> 1 / 10 ^ 6"
    by (simp add: demo_proba_def)
  have a1: "api_predict_health_risk demo_classifier ?data = Status_200 ?body"
    by (rule demo_route_ok)
  note inst = risk_result_invariants[where dir = demo_dir and self = HealthRiskModel_init
      and forecast_data = example_forecast and r = ?r and self' = ?loaded and model = ?forest
      and classes = sorted_labels and j = 0 and classifier = demo_classifier
      and features_in = polluted and persona_type = "''children_elderly''"
      and exposure_duration = 6 and rr = ?rr and forest = ?trees and data = ?data
      and body = ?body]
  from inst h1 h2 h3 h4 h5 h6 h7
  have c1: "\<bar>sum_list (dict_values (hr_all_probabilities ?r)) - 1\<bar> \<le> 1 / 10 ^ 6"
    and c2: "hr_confidence ?r = Max (set (dict_values (hr_all_probabilities ?r)))"
    and c3: "hr_risk_category ?r
               = sorted_labels ! np_argmax (dict_values (hr_all_probabilities ?r))"
    by blast+
  from inst g1 g2 g3 g4 g5
  have c4: "\<bar>sum_list (dict_values (risk_probabilities ?rr)) - 1\<bar> \<le> 1 / 10 ^ 6"
    by blast
  from inst a1
  have c5: "body_confidence ?body = Max (set (dict_values (body_probabilities ?body)))"
    by blast
  have c6: "np_argmax (dict_values
         [(''Hazardous'', 1 / 10), (''High'', 1 / 10), (''Low'', 2 / 5), (''Moderate'', 2 / 5 :: real)]) = 2"
    by (simp add: dict_values_def)
  have h5': "[0, 1, 2, 3] = [0 ..< length sorted_labels]"
    using h5 by simp
  from h1 h4 h5' c1 c2 c3 c6 g1 g3 c4 c5 show ?thesis
    by (simp del: np_argmax.simps)
qed

text \<open>
  Low and Moderate are tied at two fifths: the code returns Low, the first of the two in
  the sorted labels, where the specification's rule gives Moderate.
\<close>

theorem severity_tie_break_counterexample:
  "fst (predict_health_risk demo_dir HealthRiskModel_init example_forecast)
     = Inr \<lparr>hr_risk_category = ''Low'', hr_confidence = 2 / 5, hr_color = ''#00e400'',
            hr_risk_score = 2 / 5,
            hr_all_probabilities =
              [(''Hazardous'', 1 / 10), (''High'', 1 / 10), (''Low'', 2 / 5), (''Moderate'', 2 / 5)]\<rparr>
   \<and> spec_argmax_severity
        [(''Hazardous'', 1 / 10), (''High'', 1 / 10), (''Low'', 2 / 5), (''Moderate'', 2 / 5)]
       = Some ''Moderate''"
  by (simp add: demo_health_risk spec_argmax_tied)

text \<open>
  Claim C8, as the code has it: the \<^verbatim>\<open>/health-risk\<close> route answers 400 with
  \<^verbatim>\<open>Invalid persona type\<close> when the persona is not one of the three known ones, and
  otherwise 400 with the exposure message when the exposure is outside \<open>[0, 24]\<close>; for
  a known persona and an exposure in range it never answers 400. \<^verbatim>\<open>predict_risk\<close>
  itself checks neither: on a fitted classifier it returns a result for every persona
  string and every exposure.
\<close>

theorem validation_in_route:
  "(request_persona data \<notin> set known_personas
      \<longrightarrow> api_predict_health_risk classifier data = Status_400 ''Invalid persona type'')
   \<and> (request_persona data \<in> set known_personas
        \<and> \<not> (0 \<le> request_exposure data \<and> request_exposure data \<le> 24)
      \<longrightarrow> api_predict_health_risk classifier data
            = Status_400 ''Exposure duration must be between 0 and 24 hours'')
   \<and> (request_persona data \<in> set known_personas
        \<and> 0 \<le> request_exposure data \<and> request_exposure data \<le> 24
      \<longrightarrow> api_predict_health_risk classifier data \<noteq> Status_400 msg)
   \<and> (hrc_scaler classifier = Some scaler \<and> length (mean_attr scaler) = 12
        \<and> hrc_model classifier = Some model
        \<and> (\<forall>x. predict_proba model x \<noteq> []
                 \<and> length (predict_proba model x) \<le> length (classes_attr model))
        \<and> hrc_explainer classifier = Some explainer
      \<longrightarrow> (\<exists>r. predict_risk classifier forecast_data persona_type exposure_duration = Inr r))"
  using api_rejects_persona[of data classifier] api_rejects_exposure[of data classifier]
    api_accepts[of data classifier msg]
    predict_risk_total[of classifier scaler model explainer forecast_data persona_type exposure_duration]
  by blast

text \<open>An unknown persona, an exposure of 30 hours, and an accepted request.\<close>

theorem validation_in_route_witness:
  "request_persona \<lparr>req_fields = polluted, req_persona = Some ''astronaut'',
                     req_exposure_duration = Some 6\<rparr> \<notin> set known_personas
   \<and> api_predict_health_risk demo_classifier
        \<lparr>req_fields = polluted, req_persona = Some ''astronaut'', req_exposure_duration = Some 6\<rparr>
       = Status_400 ''Invalid persona type''
   \<and> request_persona \<lparr>req_fields = polluted, req_persona = Some ''children_elderly'',
                       req_exposure_duration = Some 30\<rparr> \<in> set known_personas
   \<and> \<not> request_exposure \<lparr>req_fields = polluted, req_persona = Some ''children_elderly'',
                           req_exposure_duration = Some 30\<rparr> \<le> 24
   \<and> api_predict_health_risk demo_classifier
        \<lparr>req_fields = polluted, req_persona = Some ''children_elderly'',
         req_exposure_duration = Some 30\<rparr>
       = Status_400 ''Exposure duration must be between 0 and 24 hours''
   \<and> api_predict_health_risk demo_classifier
        \<lparr>req_fields = polluted, req_persona = Some ''children_elderly'',
         req_exposure_duration = Some 6\<rparr>
       \<noteq> Status_400 ''Invalid persona type''
   \<and> length (mean_attr demo_standard_scaler) = 12
   \<and> (\<exists>r. predict_risk demo_classifier polluted ''astronaut'' 100 = Inr r)"
proof -
  let ?bad_persona = "\<lparr>req_fields = polluted, req_persona = Some ''astronaut'',
                       req_exposure_duration = Some 6\<rparr>"
  let ?bad_hours = "\<lparr>req_fields = polluted, req_persona = Some ''children_elderly'',
                     req_exposure_duration = Some 30\<rparr>"
  let ?good = "\<lparr>req_fields = polluted, req_persona = Some ''children_elderly'',
                req_exposure_duration = Some 6\<rparr>"
  let ?trees = "\<lparr>classes_attr = sorted_labels, predict_proba = demo_proba\<rparr>"
  have p1: "request_persona ?bad_persona \<notin> set known_personas"
    by (simp add: request_persona_def known_personas_def)
  have p2: "request_persona ?bad_hours \<in> set known_personas"
    "\<not> (0 \<le> request_exposure ?bad_hours \<and> request_exposure ?bad_hours \<le> 24)"
    by (simp_all add: request_persona_def request_exposure_def known_personas_def)
  have p2': "\<not> request_exposure ?bad_hours \<le> 24"
    by (simp add: request_exposure_def)
  have p3: "request_persona ?good \<in> set known_personas"
    "0 \<le> request_exposure ?good" "request_exposure ?good \<le> 24"
    by (simp_all add: request_persona_def request_exposure_def known_personas_def)
  have p4: "hrc_scaler demo_classifier = Some demo_standard_scaler"
    "length (mean_attr demo_standard_scaler) = 12"
    "hrc_model demo_classifier = Some ?trees"
    "\<forall>x. predict_proba ?trees x \<noteq> []
           \<and> length (predict_proba ?trees x) \<le> length (classes_attr ?trees)"
    "hrc_explainer demo_classifier = Some (\<lambda>x. [])"
    by (simp_all add: demo_classifier_def demo_standard_scaler_def demo_proba_def sorted_labels_def)
  from validation_in_route[of ?bad_persona demo_classifier] p1
  have c1: "api_predict_health_risk demo_classifier ?bad_persona = Status_400 ''Invalid persona type''"
    by blast
  from validation_in_route[of ?bad_hours demo_classifier] p2
  have c2: "api_predict_health_risk demo_classifier ?bad_hours
              = Status_400 ''Exposure duration must be between 0 and 24 hours''"
    by blast
  from validation_in_route[of ?good demo_classifier "''Invalid persona type''"] p3
  have c3: "api_predict_health_risk demo_classifier ?good \<noteq> Status_400 ''Invalid persona type''"
    by blast
  from validation_in_route[of _ demo_classifier _ demo_standard_scaler ?trees "\<lambda>x. []"
         polluted "''astronaut''" 100] p4
  have c4: "\<exists>r. predict_risk demo_classifier polluted ''astronaut'' 100 = Inr r"
    by blast
  from p1 p2(1) p2' p4(2) c1 c2 c3 c4 show ?thesis by blast
qed

text \<open>Called directly, \<^verbatim>\<open>predict_risk\<close> returns a result for a persona that is not
  known and for an exposure of 100 hours.\<close>

theorem predict_risk_validation_counterexample:
  "''astronaut'' \<notin> set known_personas
   \<and> predict_risk demo_classifier polluted ''astronaut'' 2
       = Inr \<lparr>risk_category = ''Hazardous'',
              risk_probabilities =
                [(''Low'', 7 / 10), (''Moderate'', 1 / 10), (''High'', 1 / 10), (''Hazardous'', 1 / 10)],
              shap_values = [],
              features = [250, 150, 200, 35, 85, 1, 1005, 2, 2, 0, 0, 0],
              feature_names = []\<rparr>
   \<and> \<not> (100::real) \<le> 24
   \<and> predict_risk demo_classifier polluted ''general_public'' 100
       = Inr \<lparr>risk_category = ''Hazardous'',
              risk_probabilities =
                [(''Low'', 7 / 10), (''Moderate'', 1 / 10), (''High'', 1 / 10), (''Hazardous'', 1 / 10)],
              shap_values = [],
              features = [250, 150, 200, 35, 85, 1, 1005, 2, 100, 0, 0, 1],
              feature_names = []\<rparr>"
  by (simp only: demo_predict_polluted)
     (simp add: input_features_def polluted_def dict_get_def known_personas_def)

text \<open>
  Claim C10: with the label sequence of the constructor, the returned
  \<^verbatim>\<open>risk_probabilities\<close> is that sequence zipped with the forest's probability vector,
  so the label at position \<open>i\<close> holds the probability at position \<open>i\<close> of the vector,
  whatever the forest's own class order \<^verbatim>\<open>classes_\<close> is; the returned category
  is read from \<^verbatim>\<open>classes_\<close>.
\<close>

theorem probabilities_paired_by_position:
  assumes "predict_risk self forecast_data persona_type exposure_duration = Inr r"
    and "hrc_risk_categories self = [''Low'', ''Moderate'', ''High'', ''Hazardous'']"
    and "hrc_model self = Some model" and "hrc_scaler self = Some scaler"
    and "standard_transform scaler
           (input_features forecast_data persona_type exposure_duration) = Inr x"
    and "i < length (predict_proba model x)" and "i < 4"
  shows "risk_probabilities r
           = zip [''Low'', ''Moderate'', ''High'', ''Hazardous''] (predict_proba model x)
         \<and> map_of (risk_probabilities r) ([''Low'', ''Moderate'', ''High'', ''Hazardous''] ! i)
             = Some (predict_proba model x ! i)
         \<and> risk_category r = classes_attr model ! np_argmax (predict_proba model x)"
proof -
  let ?labels = "[''Low'', ''Moderate'', ''High'', ''Hazardous'']"
  let ?proba = "predict_proba model x"
  note res = predict_risk_result[OF assms(1,3,4,5)]
  have "distinct (map fst (zip ?labels ?proba))"
    by (simp only: map_fst_zip_take) (rule distinct_take, simp)
  then have paired: "risk_probabilities r = zip ?labels ?proba"
    using res(1) by (simp add: assms(2) py_dict_distinct)
  have "map_of (zip ?labels ?proba) (?labels ! i) = Some (?proba ! i)"
    using assms(6,7) by (intro map_of_zip_nth) simp_all
  then have stored: "map_of (risk_probabilities r) (?labels ! i) = Some (?proba ! i)"
    by (simp only: paired)
  have "risk_category r = classes_attr model ! np_argmax ?proba"
    using res(2) by (auto simp: forest_predict_def Let_def split: if_splits)
  with paired stored show ?thesis by simp
qed

text \<open>The forest's first class is Hazardous, with probability seven tenths; the
  returned dictionary holds that probability under Low.\<close>

theorem probabilities_paired_by_position_witness:
  "predict_risk demo_classifier polluted ''children_elderly'' 6
     = Inr \<lparr>risk_category = ''Hazardous'',
            risk_probabilities =
              [(''Low'', 7 / 10), (''Moderate'', 1 / 10), (''High'', 1 / 10), (''Hazardous'', 1 / 10)],
            shap_values = [],
            features = [250, 150, 200, 35, 85, 1, 1005, 2, 6, 1, 0, 0],
            feature_names = []\<rparr>
   \<and> hrc_risk_categories demo_classifier = [''Low'', ''Moderate'', ''High'', ''Hazardous'']
   \<and> classes_attr \<lparr>classes_attr = sorted_labels, predict_proba = demo_proba\<rparr> ! 0 = ''Hazardous''
   \<and> map_of [(''Low'', 7 / 10), (''Moderate'', 1 / 10), (''High'', 1 / 10), (''Hazardous'', 1 / 10 :: real)]
        ([''Low'', ''Moderate'', ''High'', ''Hazardous''] ! 0)
       = Some (7 / 10)"
proof -
  let ?trees = "\<lparr>classes_attr = sorted_labels, predict_proba = demo_proba\<rparr>"
  let ?x = "[3, 5 / 2, 25 / 12, 5 / 4, 5 / 4, - (4 / 5), - (4 / 5), - 2, 0, 4 / 3, - (2 / 3), - (2 / 3) :: real]"
  have h1: "predict_risk demo_classifier polluted ''children_elderly'' 6
     = Inr \<lparr>risk_category = ''Hazardous'',
            risk_probabilities =
              [(''Low'', 7 / 10), (''Moderate'', 1 / 10), (''High'', 1 / 10), (''Hazardous'', 1 / 10)],
            shap_values = [],
            features = [250, 150, 200, 35, 85, 1, 1005, 2, 6, 1, 0, 0],
            feature_names = []\<rparr>"
    by (simp only: demo_predict_polluted) (simp add: input_features_def polluted_def dict_get_def)
  have h2: "hrc_risk_categories demo_classifier = [''Low'', ''Moderate'', ''High'', ''Hazardous'']"
    by (simp add: demo_classifier_def HealthRiskClassifier_init_def)
  have h3: "hrc_model demo_classifier = Some ?trees"
    and h4: "hrc_scaler demo_classifier = Some demo_standard_scaler"
    by (simp_all add: demo_classifier_def)
  have h5: "standard_transform demo_standard_scaler
              (input_features polluted ''children_elderly'' 6) = Inr ?x"
    by (simp add: demo_transform_polluted)
  have h6: "0 < length (predict_proba ?trees ?x)" and h7: "(0::nat) < 4"
    by (simp_all add: demo_proba_def)
  from probabilities_paired_by_position[OF h1 h2 h3 h4 h5 h6 h7]
  show ?thesis using h1 h2
    by (simp add: demo_proba_def sorted_labels_def)
qed

end
